theory Spec2Isabelle
  imports Main "HOL-Library.Word" "HOL-Library.AList"
begin

unbundle bit_operations_syntax

section \<open>Byte strings and errors\<close>

text \<open>
  The package is Python 2 code: session ids, secrets, cookie values and stored blobs are all
  \<open>str\<close>, that is byte strings.  They are modelled as \<^typ>\<open>string\<close> (lists of 8-bit
  \<^typ>\<open>char\<close>).  On a byte string \<open>pyramid.compat.bytes_\<close> is the identity, so it does
  not appear in the model.

  Exceptions are values of the type below; a function that can raise returns a sum with the
  exception on the left.
\<close>

datatype error =
    ValueError      \<comment> \<open>\<open>raise ValueError('Invalid signature')\<close>; msgpack: a byte that starts no object\<close>
  | TypeError       \<comment> \<open>an operation applied to a value of the wrong type, as \<open>val[0]\<close> on a bool\<close>
  | KeyError        \<comment> \<open>\<open>del d[k]\<close>, \<open>d[k]\<close>, \<open>d.popitem()\<close> on a missing key\<close>
  | AttributeError  \<comment> \<open>a method the value does not have\<close>
  | PackError       \<comment> \<open>msgpack refuses to pack the value (integer, length or nesting out of range)\<close>
  | OutOfData       \<comment> \<open>msgpack: \<open>unpack()\<close> with no complete object in the buffer\<close>
  | Unmodelled      \<comment> \<open>msgpack data outside the fragment modelled here (see the codec)\<close>

definition be_bytes :: "nat \<Rightarrow> nat \<Rightarrow> string" where
  \<comment> \<open>the low \<open>k\<close> bytes of \<open>n\<close>, most significant first\<close>
  "be_bytes k n = map (\<lambda>i. char_of (n div 256 ^ i)) (rev [0..<k])"

definition be_nat :: "string \<Rightarrow> nat" where
  "be_nat bs = foldl (\<lambda>acc c. acc * 256 + of_char c) 0 bs"

section \<open>Library functions used by the signer\<close>

subsection \<open>SHA-1 (\<open>hashlib.sha1\<close>)\<close>

type_synonym u32 = "32 word"

definition be32 :: "string \<Rightarrow> u32" where
  "be32 bs = foldl (\<lambda>acc c. push_bit 8 acc OR of_char c) 0 bs"

definition u32_bytes :: "u32 \<Rightarrow> string" where
  "u32_bytes w = map (\<lambda>i. char_of (unat (drop_bit (8 * i) w))) [3, 2, 1, 0]"

definition sha1_pad :: "string \<Rightarrow> string" where
  "sha1_pad m =
     m @ [CHR 0x80] @ replicate ((119 - length m mod 64) mod 64) (CHR 0x00)
       @ be_bytes 8 (8 * length m)"

definition blocks_of :: "nat \<Rightarrow> 'a list \<Rightarrow> 'a list list" where
  "blocks_of n xs = map (\<lambda>i. take n (drop (i * n) xs)) [0..<length xs div n]"

definition sha1_extend :: "u32 list \<Rightarrow> u32 list" where
  "sha1_extend ws =
     (let t = length ws
      in ws @ [word_rotl 1 (ws ! (t - 3) XOR ws ! (t - 8) XOR ws ! (t - 14) XOR ws ! (t - 16))])"

definition sha1_schedule :: "string \<Rightarrow> u32 list" where
  "sha1_schedule block = (sha1_extend ^^ 64) (map be32 (blocks_of 4 block))"

type_synonym sha1_state = "u32 \<times> u32 \<times> u32 \<times> u32 \<times> u32"

definition sha1_round :: "u32 list \<Rightarrow> sha1_state \<Rightarrow> nat \<Rightarrow> sha1_state" where
  "sha1_round ws st t =
     (case st of (a, b, c, d, e) \<Rightarrow>
        let (f, k) =
              (if t < 20 then ((b AND c) OR (NOT b AND d), 0x5A827999)
               else if t < 40 then (b XOR c XOR d, 0x6ED9EBA1)
               else if t < 60 then ((b AND c) OR (b AND d) OR (c AND d), 0x8F1BBCDC)
               else (b XOR c XOR d, 0xCA62C1D6));
            temp = word_rotl 5 a + f + e + k + ws ! t
        in (temp, a, word_rotl 30 b, c, d))"

definition sha1_compress :: "sha1_state \<Rightarrow> string \<Rightarrow> sha1_state" where
  "sha1_compress h block =
     (case h of (h0, h1, h2, h3, h4) \<Rightarrow>
        case foldl (sha1_round (sha1_schedule block)) h [0..<80] of
          (a, b, c, d, e) \<Rightarrow> (h0 + a, h1 + b, h2 + c, h3 + d, h4 + e))"

definition sha1_init :: sha1_state where
  "sha1_init = (0x67452301, 0xEFCDAB89, 0x98BADCFE, 0x10325476, 0xC3D2E1F0)"

definition sha1 :: "string \<Rightarrow> string" where
  "sha1 m =
     (case foldl sha1_compress sha1_init (blocks_of 64 (sha1_pad m)) of
        (h0, h1, h2, h3, h4) \<Rightarrow>
          u32_bytes h0 @ u32_bytes h1 @ u32_bytes h2 @ u32_bytes h3 @ u32_bytes h4)"

subsection \<open>HMAC (\<open>hmac.new(key, msg, sha1).digest()\<close>)\<close>

definition xor_byte :: "nat \<Rightarrow> char \<Rightarrow> char" where
  "xor_byte p c = char_of (of_char c XOR p)"

definition hmac_sha1 :: "string \<Rightarrow> string \<Rightarrow> string" where
  "hmac_sha1 key msg =
     (let k = (if length key > 64 then sha1 key else key);
          k' = k @ replicate (64 - length k) (CHR 0x00)
      in sha1 (map (xor_byte 0x5C) k' @ sha1 (map (xor_byte 0x36) k' @ msg)))"

subsection \<open>Base32 (\<open>base64.b32encode\<close>)\<close>

definition b32tab :: string where
  "b32tab = ''ABCDEFGHIJKLMNOPQRSTUVWXYZ234567''"

definition b32_quantum :: "string \<Rightarrow> string" where
  "b32_quantum q =
     (let n = be_nat q
      in map (\<lambda>i. b32tab ! (n div 32 ^ (7 - i) mod 32)) [0..<8])"

definition b32encode :: "string \<Rightarrow> string" where
  "b32encode s =
     (let leftover = length s mod 5;
          s' = (if leftover \<noteq> 0 then s @ replicate (5 - leftover) (CHR 0x00) else s);
          encoded = concat (map b32_quantum (blocks_of 5 s'))
      in if leftover = 1 then take (length encoded - 6) encoded @ ''======''
         else if leftover = 2 then take (length encoded - 4) encoded @ ''====''
         else if leftover = 3 then take (length encoded - 3) encoded @ ''===''
         else if leftover = 4 then take (length encoded - 1) encoded @ ''=''
         else encoded)"

subsection \<open>Constant-time comparison (\<open>pyramid.util.strings_differ\<close>)\<close>

definition strings_differ :: "string \<Rightarrow> string \<Rightarrow> bool" where
  "strings_differ string1 string2 =
     (if length string1 \<noteq> length string2 then True
      else foldl (\<lambda>invalid_bits (a, b). invalid_bits + (if a \<noteq> b then 1 else 0))
             (0::nat) (zip string1 string2) \<noteq> 0)"

section \<open>The signer (\<open>util.py\<close>)\<close>

definition sign_session_id :: "string \<Rightarrow> string \<Rightarrow> string" where
  "sign_session_id session_id secret =
     (let sig = hmac_sha1 secret session_id
      in b32encode sig @ session_id)"

definition unsign_session_id :: "string \<Rightarrow> string \<Rightarrow> error + string" where
  "unsign_session_id cookie secret =
     (let input_sig = take 32 cookie;
          session_id = drop 32 cookie;
          sig = hmac_sha1 secret session_id
      in if strings_differ (b32encode sig) input_sig then Inl ValueError
         else Inr session_id)"

section \<open>The codec (\<open>util.py\<close>: \<open>serialize\<close>, \<open>deserialize\<close>)\<close>

subsection \<open>Python values and the msgpack format\<close>

text \<open>
  The payload of a session is a Python \<open>dict\<close>; the values the specification speaks about
  are \<open>None\<close>, booleans, integers, byte strings, lists and string-keyed dicts.
  A dict is an association list with pairwise distinct keys, in the dict's iteration order
  (which Python 2 leaves unspecified; the model fixes one).

  \<open>msgpack.Packer\<close> and \<open>msgpack.Unpacker\<close> are library code.  They are modelled on this
  fragment of the format: nil, booleans, the integer families, raw byte strings, arrays and
  maps with raw keys.  Floating-point numbers, maps with other keys and the format bytes
  later versions of the format assign to further types are outside the fragment: the
  decoder of the model reports them as \<^term>\<open>Unmodelled\<close>, and no theorem below draws a
  conclusion from that value.
\<close>

datatype pyval =
    PyNone
  | PyBool bool
  | PyInt int
  | PyStr string
  | PyList "pyval list"
  | PyDict "(string \<times> pyval) list"

text \<open>The representation invariant of dicts: no key occurs twice, at any depth.\<close>

fun well_formed :: "pyval \<Rightarrow> bool"
  and well_formed_list :: "pyval list \<Rightarrow> bool"
  and well_formed_items :: "(string \<times> pyval) list \<Rightarrow> bool"
where
  "well_formed PyNone = True"
| "well_formed (PyBool b) = True"
| "well_formed (PyInt d) = True"
| "well_formed (PyStr s) = True"
| "well_formed (PyList xs) = well_formed_list xs"
| "well_formed (PyDict m) = (distinct (map fst m) \<and> well_formed_items m)"
| "well_formed_list [] = True"
| "well_formed_list (x # xs) = (well_formed x \<and> well_formed_list xs)"
| "well_formed_items [] = True"
| "well_formed_items ((k, v) # m) = (well_formed v \<and> well_formed_items m)"

definition pack_int :: "int \<Rightarrow> string" where
  "pack_int d =
     (if d < - (2 ^ 5) then
        (if d < - (2 ^ 15) then
           (if d < - (2 ^ 31) then CHR 0xd3 # be_bytes 8 (nat (2 ^ 64 + d))
            else CHR 0xd2 # be_bytes 4 (nat (2 ^ 32 + d)))
         else if d < - (2 ^ 7) then CHR 0xd1 # be_bytes 2 (nat (2 ^ 16 + d))
         else CHR 0xd0 # be_bytes 1 (nat (2 ^ 8 + d)))
      else if d < 2 ^ 7 then [char_of (nat (d mod 256))]
      else if d < 2 ^ 16 then
        (if d < 2 ^ 8 then CHR 0xcc # be_bytes 1 (nat d)
         else CHR 0xcd # be_bytes 2 (nat d))
      else if d < 2 ^ 32 then CHR 0xce # be_bytes 4 (nat d)
      else CHR 0xcf # be_bytes 8 (nat d))"

definition pack_raw :: "string \<Rightarrow> string" where
  "pack_raw s =
     (let n = length s
      in (if n < 32 then [char_of (0xa0 + n)]
          else if n < 2 ^ 16 then CHR 0xda # be_bytes 2 n
          else CHR 0xdb # be_bytes 4 n) @ s)"

definition pack_array_header :: "nat \<Rightarrow> string" where
  "pack_array_header n =
     (if n < 16 then [char_of (0x90 + n)]
      else if n < 2 ^ 16 then CHR 0xdc # be_bytes 2 n
      else CHR 0xdd # be_bytes 4 n)"

definition pack_map_header :: "nat \<Rightarrow> string" where
  "pack_map_header n =
     (if n < 16 then [char_of (0x80 + n)]
      else if n < 2 ^ 16 then CHR 0xde # be_bytes 2 n
      else CHR 0xdf # be_bytes 4 n)"

fun pack :: "pyval \<Rightarrow> string"
  and pack_list :: "pyval list \<Rightarrow> string"
  and pack_items :: "(string \<times> pyval) list \<Rightarrow> string"
where
  "pack PyNone = [CHR 0xc0]"
| "pack (PyBool b) = [if b then CHR 0xc3 else CHR 0xc2]"
| "pack (PyInt d) = pack_int d"
| "pack (PyStr s) = pack_raw s"
| "pack (PyList xs) = pack_array_header (length xs) @ pack_list xs"
| "pack (PyDict m) = pack_map_header (length m) @ pack_items m"
| "pack_list [] = []"
| "pack_list (x # xs) = pack x @ pack_list xs"
| "pack_items [] = []"
| "pack_items ((k, v) # m) = pack_raw k @ pack v @ pack_items m"

text \<open>
  What the packer accepts: integers between \<open>-2^63\<close> and \<open>2^64 - 1\<close>, lengths below
  \<open>2^32\<close>, and at most 511 containers around any value (the packer's recursion limit).
\<close>

fun fits :: "pyval \<Rightarrow> bool"
  and fits_list :: "pyval list \<Rightarrow> bool"
  and fits_items :: "(string \<times> pyval) list \<Rightarrow> bool"
where
  "fits PyNone = True"
| "fits (PyBool b) = True"
| "fits (PyInt d) = (- (2 ^ 63) \<le> d \<and> d < 2 ^ 64)"
| "fits (PyStr s) = (length s < 2 ^ 32)"
| "fits (PyList xs) = (length xs < 2 ^ 32 \<and> fits_list xs)"
| "fits (PyDict m) = (length m < 2 ^ 32 \<and> fits_items m)"
| "fits_list [] = True"
| "fits_list (x # xs) = (fits x \<and> fits_list xs)"
| "fits_items [] = True"
| "fits_items ((k, v) # m) = (length k < 2 ^ 32 \<and> fits v \<and> fits_items m)"

fun nesting :: "pyval \<Rightarrow> nat"
  and nesting_list :: "pyval list \<Rightarrow> nat"
  and nesting_items :: "(string \<times> pyval) list \<Rightarrow> nat"
where
  "nesting PyNone = 0"
| "nesting (PyBool b) = 0"
| "nesting (PyInt d) = 0"
| "nesting (PyStr s) = 0"
| "nesting (PyList xs) = nesting_list xs"
| "nesting (PyDict m) = nesting_items m"
| "nesting_list [] = 0"
| "nesting_list (x # xs) = max (Suc (nesting x)) (nesting_list xs)"
| "nesting_items [] = 0"
| "nesting_items ((k, v) # m) = max (Suc (nesting v)) (nesting_items m)"

definition packable :: "pyval \<Rightarrow> bool" where
  "packable obj \<longleftrightarrow> fits obj \<and> nesting obj \<le> 511"

text \<open>
  The decoder reads one object from the front of a byte string and returns it with the
  bytes that follow it.  Its first argument bounds the nesting of containers; the caller
  passes the length of the buffer, which no nesting can exceed, so the bound is never what
  stops it.  A map is turned into a dict item by item, a repeated key keeping its last
  value, as \<open>dict\<close> insertion does.
\<close>

definition dict_of_items :: "(string \<times> pyval) list \<Rightarrow> (string \<times> pyval) list" where
  "dict_of_items kvs = foldl (\<lambda>d (k, v). AList.update k v d) [] kvs"

definition take_exact :: "nat \<Rightarrow> string \<Rightarrow> error + string \<times> string" where
  "take_exact n bs = (if length bs < n then Inl OutOfData else Inr (take n bs, drop n bs))"

definition unpack_uint :: "nat \<Rightarrow> string \<Rightarrow> error + pyval \<times> string" where
  "unpack_uint k bs =
     (case take_exact k bs of
        Inl e \<Rightarrow> Inl e
      | Inr (h, rest) \<Rightarrow> Inr (PyInt (int (be_nat h)), rest))"

definition unpack_sint :: "nat \<Rightarrow> string \<Rightarrow> error + pyval \<times> string" where
  "unpack_sint k bs =
     (case take_exact k bs of
        Inl e \<Rightarrow> Inl e
      | Inr (h, rest) \<Rightarrow>
          Inr (PyInt (if be_nat h < 2 ^ (8 * k - 1) then int (be_nat h)
                      else int (be_nat h) - 2 ^ (8 * k)), rest))"

definition unpack_raw :: "nat \<Rightarrow> string \<Rightarrow> error + pyval \<times> string" where
  "unpack_raw n bs =
     (case take_exact n bs of
        Inl e \<Rightarrow> Inl e
      | Inr (s, rest) \<Rightarrow> Inr (PyStr s, rest))"

fun unpack_obj :: "nat \<Rightarrow> string \<Rightarrow> error + pyval \<times> string"
  and unpack_array :: "nat \<Rightarrow> nat \<Rightarrow> string \<Rightarrow> error + pyval list \<times> string"
  and unpack_map :: "nat \<Rightarrow> nat \<Rightarrow> string \<Rightarrow> error + (string \<times> pyval) list \<times> string"
where
  "unpack_obj 0 bs = Inl OutOfData"
| "unpack_obj (Suc fuel) [] = Inl OutOfData"
| "unpack_obj (Suc fuel) (c # bs) =
     (let b = (of_char c :: nat)
      in if b < 0x80 then Inr (PyInt (int b), bs)
         else if b < 0x90 then
           (case unpack_map fuel (b - 0x80) bs of
              Inl e \<Rightarrow> Inl e
            | Inr (m, rest) \<Rightarrow> Inr (PyDict (dict_of_items m), rest))
         else if b < 0xa0 then
           (case unpack_array fuel (b - 0x90) bs of
              Inl e \<Rightarrow> Inl e
            | Inr (xs, rest) \<Rightarrow> Inr (PyList xs, rest))
         else if b < 0xc0 then unpack_raw (b - 0xa0) bs
         else if b = 0xc0 then Inr (PyNone, bs)
         else if b = 0xc1 then Inl ValueError
         else if b = 0xc2 then Inr (PyBool False, bs)
         else if b = 0xc3 then Inr (PyBool True, bs)
         else if b = 0xcc then unpack_uint 1 bs
         else if b = 0xcd then unpack_uint 2 bs
         else if b = 0xce then unpack_uint 4 bs
         else if b = 0xcf then unpack_uint 8 bs
         else if b = 0xd0 then unpack_sint 1 bs
         else if b = 0xd1 then unpack_sint 2 bs
         else if b = 0xd2 then unpack_sint 4 bs
         else if b = 0xd3 then unpack_sint 8 bs
         else if b = 0xda \<or> b = 0xdb then
           (case take_exact (if b = 0xda then 2 else 4) bs of
              Inl e \<Rightarrow> Inl e
            | Inr (h, rest) \<Rightarrow> unpack_raw (be_nat h) rest)
         else if b = 0xdc \<or> b = 0xdd then
           (case take_exact (if b = 0xdc then 2 else 4) bs of
              Inl e \<Rightarrow> Inl e
            | Inr (h, rest) \<Rightarrow>
                (case unpack_array fuel (be_nat h) rest of
                   Inl e \<Rightarrow> Inl e
                 | Inr (xs, rest') \<Rightarrow> Inr (PyList xs, rest')))
         else if b = 0xde \<or> b = 0xdf then
           (case take_exact (if b = 0xde then 2 else 4) bs of
              Inl e \<Rightarrow> Inl e
            | Inr (h, rest) \<Rightarrow>
                (case unpack_map fuel (be_nat h) rest of
                   Inl e \<Rightarrow> Inl e
                 | Inr (m, rest') \<Rightarrow> Inr (PyDict (dict_of_items m), rest')))
         else if 0xe0 \<le> b then Inr (PyInt (int b - 256), bs)
         else Inl Unmodelled)"
| "unpack_array fuel 0 bs = Inr ([], bs)"
| "unpack_array fuel (Suc n) bs =
     (case unpack_obj fuel bs of
        Inl e \<Rightarrow> Inl e
      | Inr (x, rest) \<Rightarrow>
          (case unpack_array fuel n rest of
             Inl e \<Rightarrow> Inl e
           | Inr (xs, rest') \<Rightarrow> Inr (x # xs, rest')))"
| "unpack_map fuel 0 bs = Inr ([], bs)"
| "unpack_map fuel (Suc n) bs =
     (case unpack_obj fuel bs of
        Inl e \<Rightarrow> Inl e
      | Inr (k, rest) \<Rightarrow>
          (case unpack_obj fuel rest of
             Inl e \<Rightarrow> Inl e
           | Inr (v, rest') \<Rightarrow>
               (case k of
                  PyStr s \<Rightarrow>
                    (case unpack_map fuel n rest' of
                       Inl e \<Rightarrow> Inl e
                     | Inr (m, rest'') \<Rightarrow> Inr ((s, v) # m, rest''))
                | _ \<Rightarrow> Inl Unmodelled)))"

subsection \<open>The module's packer and unpacker\<close>

text \<open>
  \<open>util.py\<close> creates one \<open>Packer\<close> and one \<open>Unpacker\<close> when it is imported and uses them
  for every call.  The unpacker is a streaming decoder: \<open>feed\<close> appends bytes to its
  buffer, \<open>unpack\<close> removes one object from the front of the buffer and leaves the rest
  for the next call.  That buffer is state shared by all calls of \<open>deserialize\<close>, so
  \<open>deserialize\<close> takes it and returns it; it is empty when the module has just been
  imported.  \<open>feed\<close> wants a byte string: \<open>None\<close>, which the store answers for a missing
  key, is a \<open>TypeError\<close>.  When \<open>unpack\<close> fails the model leaves the buffer as it was.
\<close>

definition serialize :: "pyval \<Rightarrow> error + string" where
  "serialize obj = (if packable obj then Inr (pack obj) else Inl PackError)"

definition feed :: "string option \<Rightarrow> string \<Rightarrow> error + string" where
  "feed next_bytes buf = (case next_bytes of None \<Rightarrow> Inl TypeError | Some s \<Rightarrow> Inr (buf @ s))"

definition unpack :: "string \<Rightarrow> (error + pyval) \<times> string" where
  "unpack buf =
     (case unpack_obj (length buf) buf of
        Inl e \<Rightarrow> (Inl e, buf)
      | Inr (obj, rest) \<Rightarrow> (Inr obj, rest))"

definition deserialize :: "string option \<Rightarrow> string \<Rightarrow> (error + pyval) \<times> string" where
  "deserialize str unpacker =
     (case feed str unpacker of
        Inl e \<Rightarrow> (Inl e, unpacker)
      | Inr buf \<Rightarrow> unpack buf)"

definition empty_session :: string where
  "empty_session = (case serialize (PyDict []) of Inr blob \<Rightarrow> blob | Inl e \<Rightarrow> [])"

section \<open>The store\<close>

text \<open>
  Redis is an external collaborator.  The model keeps, for every key, the stored blob and
  the expiration last set for it (\<open>None\<close>: the key does not expire); time does not pass in
  the model, so a key is never removed behind the program's back.  The commands are the six
  the package uses.  \<open>SET\<close> clears the expiration of the key, \<open>SETEX\<close> sets value and
  expiration together, \<open>SETNX\<close> writes only when the key is absent, \<open>EXPIRE\<close> touches only
  the expiration of an existing key (and removes the key when the time is not positive).
  The client is the \<open>StrictRedis\<close> the factory builds: its \<open>exists\<close> and \<open>setnx\<close> answer a
  bool (\<open>setnx\<close>: whether the key was written).

  Timeouts are numbers of seconds and are modelled as natural numbers; Python's
  \<open>if timeout:\<close> is \<open>timeout \<noteq> 0\<close>.
\<close>

record entry =
  blob :: string
  ttl :: "nat option"

type_synonym store = "string \<rightharpoonup> entry"

definition redis_get :: "string \<Rightarrow> store \<Rightarrow> string option" where
  "redis_get name redis = map_option blob (redis name)"

definition redis_exists :: "string \<Rightarrow> store \<Rightarrow> bool" where
  "redis_exists name redis \<longleftrightarrow> redis name \<noteq> None"

definition redis_set :: "string \<Rightarrow> string \<Rightarrow> store \<Rightarrow> store" where
  "redis_set name v redis = redis(name \<mapsto> \<lparr>blob = v, ttl = None\<rparr>)"

definition redis_setex :: "string \<Rightarrow> nat \<Rightarrow> string \<Rightarrow> store \<Rightarrow> store" where
  "redis_setex name time v redis = redis(name \<mapsto> \<lparr>blob = v, ttl = Some time\<rparr>)"

definition redis_setnx :: "string \<Rightarrow> string \<Rightarrow> store \<Rightarrow> bool \<times> store" where
  "redis_setnx name v redis =
     (case redis name of
        None \<Rightarrow> (True, redis(name \<mapsto> \<lparr>blob = v, ttl = None\<rparr>))
      | Some e \<Rightarrow> (False, redis))"

definition redis_expire :: "string \<Rightarrow> nat \<Rightarrow> store \<Rightarrow> store" where
  "redis_expire name time redis =
     (case redis name of
        None \<Rightarrow> redis
      | Some e \<Rightarrow> if time = 0 then redis(name := None) else redis(name \<mapsto> e\<lparr>ttl := Some time\<rparr>))"

section \<open>The allocator (\<open>util.py\<close>: \<open>new_session_id\<close>)\<close>

text \<open>
  \<open>Random.new().read(20)\<close> is an external source of bytes: the function takes the list of
  the draws it will see.  The loop of the source has no bound; the model stops with
  \<open>None\<close> when the draws it was given are used up, which stands for a loop still running.

  The source tests the reply of \<open>setnx\<close> with \<open>val[0] is True\<close>.  The reply is a bool, and
  a bool cannot be subscripted: \<open>val[0]\<close> raises \<open>TypeError\<close>, whatever the bool and the
  index.  The exception leaves the function after \<open>setnx\<close> has run and before \<open>expire\<close>.
\<close>

definition getitem_bool :: "bool \<Rightarrow> nat \<Rightarrow> error + bool" where
  "getitem_bool val i = Inl TypeError"

fun new_session_id ::
  "store \<Rightarrow> nat \<Rightarrow> string list \<Rightarrow> ((error + string) \<times> store \<times> string list) option"
where
  "new_session_id redis time [] = None"
| "new_session_id redis time (r # rand) =
     (let sid = b32encode r;
          (val, redis1) = redis_setnx sid empty_session redis
      in case getitem_bool val 0 of
           Inl e \<Rightarrow> Some (Inl e, redis1, rand)
         | Inr flag \<Rightarrow>
             if flag then
               Some (Inr sid, if time \<noteq> 0 then redis_expire sid time redis1 else redis1, rand)
             else new_session_id redis1 time rand)"

section \<open>The session (\<open>session.py\<close>)\<close>

record session =
  session_id :: string
  managed_dict :: "(string \<times> pyval) list"
  default_timeout :: nat
  timeout :: nat
  v_new :: bool

text \<open>
  The field \<open>created\<close> (the wall-clock time of construction) is informational and left out.
  A session object holds a reference to the Redis client; the model passes the store to the
  methods and gets it back.  A method that raises may already have changed the object, so
  the outcome of a call carries the session and the store in both cases.
\<close>

type_synonym 'r outcome = "(error + 'r) \<times> session \<times> store"

definition to_redis :: "session \<Rightarrow> error + string" where
  "to_redis self = serialize (PyDict (managed_dict self))"

definition from_redis :: "string \<Rightarrow> store \<Rightarrow> string \<Rightarrow> (error + pyval) \<times> string" where
  "from_redis sid redis unpacker =
     (let persisted = redis_get sid redis
      in deserialize persisted unpacker)"

text \<open>
  The constructor.  \<open>'on' in self.managed_dict\<close> raises \<open>TypeError\<close> when the decoded blob
  is \<open>None\<close>, a boolean or an integer.  When it is a list or a string the source builds an
  object whose payload is not a mapping; such objects are outside the model (the record
  holds a dict), and the constructor of the model answers \<^term>\<open>Unmodelled\<close>.
\<close>

definition RedisSession ::
  "store \<Rightarrow> string \<Rightarrow> nat \<Rightarrow> string \<Rightarrow> (error + session) \<times> string"
where
  "RedisSession redis sid time unpacker =
     (case from_redis sid redis unpacker of
        (Inl e, unpacker1) \<Rightarrow> (Inl e, unpacker1)
      | (Inr obj, unpacker1) \<Rightarrow>
          (case obj of
             PyDict d \<Rightarrow>
               (Inr \<lparr>session_id = sid, managed_dict = d, default_timeout = time,
                     timeout = (if map_of d ''on'' \<noteq> None then 0 else time),
                     v_new = False\<rparr>, unpacker1)
           | PyNone \<Rightarrow> (Inl TypeError, unpacker1)
           | PyBool b \<Rightarrow> (Inl TypeError, unpacker1)
           | PyInt i \<Rightarrow> (Inl TypeError, unpacker1)
           | PyStr s \<Rightarrow> (Inl Unmodelled, unpacker1)
           | PyList xs \<Rightarrow> (Inl Unmodelled, unpacker1)))"

subsection \<open>The decorators (\<open>util.py\<close>: \<open>persist\<close>, \<open>refresh\<close>)\<close>

definition refresh :: "(session \<Rightarrow> (error + 'r) \<times> session) \<Rightarrow> session \<Rightarrow> store \<Rightarrow> 'r outcome"
where
  "refresh wrapped self redis =
     (case wrapped self of
        (Inl e, self1) \<Rightarrow> (Inl e, self1, redis)
      | (Inr result, self1) \<Rightarrow>
          (Inr result, self1,
           if timeout self1 \<noteq> 0 then redis_expire (session_id self1) (timeout self1) redis
           else redis))"

definition persist :: "(session \<Rightarrow> (error + 'r) \<times> session) \<Rightarrow> session \<Rightarrow> store \<Rightarrow> 'r outcome"
where
  "persist wrapped self redis =
     (case wrapped self of
        (Inl e, self1) \<Rightarrow> (Inl e, self1, redis)
      | (Inr result, self1) \<Rightarrow>
          (case to_redis self1 of
             Inl e \<Rightarrow> (Inl e, self1, redis)
           | Inr data \<Rightarrow>
               (Inr result, self1,
                if timeout self1 \<noteq> 0
                then redis_setex (session_id self1) (timeout self1) data redis
                else redis_set (session_id self1) data redis)))"

subsection \<open>Methods that modify the dict, decorated with \<open>@persist\<close>\<close>

text \<open>
  \<open>popitem\<close> removes the pair Python's iteration would meet first, here the head of the
  association list.  \<open>update\<close> takes the pairs of the other dict in their order.
\<close>

definition delitem :: "string \<Rightarrow> session \<Rightarrow> store \<Rightarrow> unit outcome" where
  "delitem key =
     persist (\<lambda>self. case map_of (managed_dict self) key of
                None \<Rightarrow> (Inl KeyError, self)
              | Some v \<Rightarrow>
                  (Inr (), self\<lparr>managed_dict := AList.delete key (managed_dict self)\<rparr>))"

definition setitem :: "string \<Rightarrow> pyval \<Rightarrow> session \<Rightarrow> store \<Rightarrow> unit outcome" where
  "setitem key v =
     persist (\<lambda>self. (Inr (), self\<lparr>managed_dict := AList.update key v (managed_dict self)\<rparr>))"

definition setdefault :: "string \<Rightarrow> pyval \<Rightarrow> session \<Rightarrow> store \<Rightarrow> pyval outcome" where
  "setdefault key dflt =
     persist (\<lambda>self. case map_of (managed_dict self) key of
                None \<Rightarrow>
                  (Inr dflt,
                   self\<lparr>managed_dict := AList.update key dflt (managed_dict self)\<rparr>)
              | Some v \<Rightarrow> (Inr v, self))"

definition clear :: "session \<Rightarrow> store \<Rightarrow> unit outcome" where
  "clear = persist (\<lambda>self. (Inr (), self\<lparr>managed_dict := []\<rparr>))"

definition pop :: "string \<Rightarrow> pyval \<Rightarrow> session \<Rightarrow> store \<Rightarrow> pyval outcome" where
  "pop key dflt =
     persist (\<lambda>self. case map_of (managed_dict self) key of
                None \<Rightarrow> (Inr dflt, self)
              | Some v \<Rightarrow>
                  (Inr v, self\<lparr>managed_dict := AList.delete key (managed_dict self)\<rparr>))"

definition update :: "(string \<times> pyval) list \<Rightarrow> session \<Rightarrow> store \<Rightarrow> unit outcome" where
  "update other =
     persist (\<lambda>self. (Inr (), self\<lparr>managed_dict :=
                foldl (\<lambda>d (k, v). AList.update k v d) (managed_dict self) other\<rparr>))"

definition popitem :: "session \<Rightarrow> store \<Rightarrow> (string \<times> pyval) outcome" where
  "popitem =
     persist (\<lambda>self. case managed_dict self of
                [] \<Rightarrow> (Inl KeyError, self)
              | item # rest \<Rightarrow> (Inr item, self\<lparr>managed_dict := rest\<rparr>))"

definition changed :: "session \<Rightarrow> store \<Rightarrow> unit outcome" where
  "changed = persist (\<lambda>self. (Inr (), self))"

definition set_timeout :: "session \<Rightarrow> store \<Rightarrow> unit outcome" where
  "set_timeout =
     persist (\<lambda>self.
       let self1 = self\<lparr>timeout := default_timeout self\<rparr>
       in (Inr (),
           if map_of (managed_dict self1) ''on'' \<noteq> None
           then self1\<lparr>managed_dict := AList.delete ''on'' (managed_dict self1)\<rparr>
           else self1))"

definition dont_expire :: "session \<Rightarrow> store \<Rightarrow> unit outcome" where
  "dont_expire =
     persist (\<lambda>self.
       let self1 = self\<lparr>timeout := 0\<rparr>
       in (Inr (),
           self1\<lparr>managed_dict := AList.update ''on'' (PyBool True) (managed_dict self1)\<rparr>))"

subsection \<open>Read-only methods, decorated with \<open>@refresh\<close>\<close>

text \<open>The iterator variants hand out the same sequences as the list variants.\<close>

definition getitem :: "string \<Rightarrow> session \<Rightarrow> store \<Rightarrow> pyval outcome" where
  "getitem key =
     refresh (\<lambda>self. case map_of (managed_dict self) key of
                None \<Rightarrow> (Inl KeyError, self)
              | Some v \<Rightarrow> (Inr v, self))"

definition contains :: "string \<Rightarrow> session \<Rightarrow> store \<Rightarrow> bool outcome" where
  "contains key = refresh (\<lambda>self. (Inr (map_of (managed_dict self) key \<noteq> None), self))"

definition keys :: "session \<Rightarrow> store \<Rightarrow> string list outcome" where
  "keys = refresh (\<lambda>self. (Inr (map fst (managed_dict self)), self))"

definition items :: "session \<Rightarrow> store \<Rightarrow> (string \<times> pyval) list outcome" where
  "items = refresh (\<lambda>self. (Inr (managed_dict self), self))"

definition get :: "string \<Rightarrow> pyval \<Rightarrow> session \<Rightarrow> store \<Rightarrow> pyval outcome" where
  "get key dflt =
     refresh (\<lambda>self. (Inr (case map_of (managed_dict self) key of
                             None \<Rightarrow> dflt
                           | Some v \<Rightarrow> v), self))"

definition iter :: "session \<Rightarrow> store \<Rightarrow> string list outcome" where
  "iter = refresh (\<lambda>self. (Inr (map fst (managed_dict self)), self))"

definition has_key :: "string \<Rightarrow> session \<Rightarrow> store \<Rightarrow> bool outcome" where
  "has_key key = refresh (\<lambda>self. (Inr (map_of (managed_dict self) key \<noteq> None), self))"

definition session_values :: "session \<Rightarrow> store \<Rightarrow> pyval list outcome" where
  "session_values = refresh (\<lambda>self. (Inr (map snd (managed_dict self)), self))"

definition itervalues :: "session \<Rightarrow> store \<Rightarrow> pyval list outcome" where
  "itervalues = refresh (\<lambda>self. (Inr (map snd (managed_dict self)), self))"

definition iteritems :: "session \<Rightarrow> store \<Rightarrow> (string \<times> pyval) list outcome" where
  "iteritems = refresh (\<lambda>self. (Inr (managed_dict self), self))"

definition iterkeys :: "session \<Rightarrow> store \<Rightarrow> string list outcome" where
  "iterkeys = refresh (\<lambda>self. (Inr (map fst (managed_dict self)), self))"

subsection \<open>The two families of methods\<close>

text \<open>
  To speak about \<^emph>\<open>every\<close> decorated method at once, a call is a value: the method with
  its arguments.  The two functions below run a call; they add nothing to the methods but
  a common type for their results.
\<close>

datatype mutating_call =
    Delitem string
  | Setitem string pyval
  | Setdefault string pyval
  | Clear
  | Pop string pyval
  | Update "(string \<times> pyval) list"
  | Popitem
  | Changed
  | Set_timeout
  | Dont_expire

datatype reading_call =
    Getitem string
  | Contains string
  | Keys
  | Items
  | Get string pyval
  | Iter
  | Has_key string
  | Values
  | Itervalues
  | Iteritems
  | Iterkeys

datatype result =
    Ret_none
  | Ret_obj pyval
  | Ret_bool bool
  | Ret_item "string \<times> pyval"
  | Ret_keys "string list"
  | Ret_values "pyval list"
  | Ret_items "(string \<times> pyval) list"

definition returning :: "('r \<Rightarrow> result) \<Rightarrow> 'r outcome \<Rightarrow> result outcome" where
  "returning f out = (case out of (r, self, redis) \<Rightarrow> (map_sum id f r, self, redis))"

fun call_mutating :: "mutating_call \<Rightarrow> session \<Rightarrow> store \<Rightarrow> result outcome" where
  "call_mutating (Delitem key) self redis = returning (\<lambda>u. Ret_none) (delitem key self redis)"
| "call_mutating (Setitem key v) self redis = returning (\<lambda>u. Ret_none) (setitem key v self redis)"
| "call_mutating (Setdefault key dflt) self redis = returning Ret_obj (setdefault key dflt self redis)"
| "call_mutating Clear self redis = returning (\<lambda>u. Ret_none) (clear self redis)"
| "call_mutating (Pop key dflt) self redis = returning Ret_obj (pop key dflt self redis)"
| "call_mutating (Update other) self redis = returning (\<lambda>u. Ret_none) (update other self redis)"
| "call_mutating Popitem self redis = returning Ret_item (popitem self redis)"
| "call_mutating Changed self redis = returning (\<lambda>u. Ret_none) (changed self redis)"
| "call_mutating Set_timeout self redis = returning (\<lambda>u. Ret_none) (set_timeout self redis)"
| "call_mutating Dont_expire self redis = returning (\<lambda>u. Ret_none) (dont_expire self redis)"

fun call_reading :: "reading_call \<Rightarrow> session \<Rightarrow> store \<Rightarrow> result outcome" where
  "call_reading (Getitem key) self redis = returning Ret_obj (getitem key self redis)"
| "call_reading (Contains key) self redis = returning Ret_bool (contains key self redis)"
| "call_reading Keys self redis = returning Ret_keys (keys self redis)"
| "call_reading Items self redis = returning Ret_items (items self redis)"
| "call_reading (Get key dflt) self redis = returning Ret_obj (get key dflt self redis)"
| "call_reading Iter self redis = returning Ret_keys (iter self redis)"
| "call_reading (Has_key key) self redis = returning Ret_bool (has_key key self redis)"
| "call_reading Values self redis = returning Ret_values (session_values self redis)"
| "call_reading Itervalues self redis = returning Ret_values (itervalues self redis)"
| "call_reading Iteritems self redis = returning Ret_items (iteritems self redis)"
| "call_reading Iterkeys self redis = returning Ret_keys (iterkeys self redis)"

subsection \<open>Flash messages\<close>

text \<open>
  \<open>msg in storage\<close> for a byte string \<open>msg\<close>: membership in a list, a substring test on a
  string, a key test on a dict, \<open>TypeError\<close> on anything else.
\<close>

definition py_in :: "string \<Rightarrow> pyval \<Rightarrow> error + bool" where
  "py_in msg storage =
     (case storage of
        PyList xs \<Rightarrow> Inr (PyStr msg \<in> set xs)
      | PyStr s \<Rightarrow> Inr (\<exists>i \<in> {0..length s}. take (length msg) (drop i s) = msg)
      | PyDict d \<Rightarrow> Inr (map_of d msg \<noteq> None)
      | PyNone \<Rightarrow> Inl TypeError
      | PyBool b \<Rightarrow> Inl TypeError
      | PyInt i \<Rightarrow> Inl TypeError)"

text \<open>
  In \<open>flash\<close> the name \<open>storage\<close> is the very list object stored in the dict (the default
  \<open>[]\<close> is put into the dict by \<open>setdefault\<close> before it is returned), so
  \<open>storage.append(msg)\<close> changes the dict's entry in place.  The model writes that change to
  the entry.  Only a list has \<open>append\<close>.  Messages are byte strings.
\<close>

definition flash :: "string \<Rightarrow> string \<Rightarrow> bool \<Rightarrow> session \<Rightarrow> store \<Rightarrow> unit outcome" where
  "flash msg queue allow_duplicate self redis =
     (case setdefault (''_f_'' @ queue) (PyList []) self redis of
        (Inl e, self1, redis1) \<Rightarrow> (Inl e, self1, redis1)
      | (Inr storage, self1, redis1) \<Rightarrow>
          (case (if allow_duplicate then Inr True
                 else map_sum id Not (py_in msg storage)) of
             Inl e \<Rightarrow> (Inl e, self1, redis1)
           | Inr False \<Rightarrow> (Inr (), self1, redis1)
           | Inr True \<Rightarrow>
               (case storage of
                  PyList xs \<Rightarrow>
                    changed
                      (self1\<lparr>managed_dict :=
                         AList.update (''_f_'' @ queue) (PyList (xs @ [PyStr msg]))
                           (managed_dict self1)\<rparr>)
                      redis1
                | _ \<Rightarrow> (Inl AttributeError, self1, redis1))))"

definition peek_flash :: "string \<Rightarrow> session \<Rightarrow> store \<Rightarrow> pyval outcome" where
  "peek_flash queue = get (''_f_'' @ queue) (PyList [])"

definition pop_flash :: "string \<Rightarrow> session \<Rightarrow> store \<Rightarrow> pyval outcome" where
  "pop_flash queue = pop (''_f_'' @ queue) (PyList [])"

section \<open>The factory (\<open>__init__.py\<close>)\<close>

text \<open>
  The configuration holds the arguments of \<open>RedisSessionFactory\<close> the factory's decisions
  depend on.  A request has its cookies, its \<open>exception\<close> attribute (\<open>None\<close> when there is
  none) and the response callbacks registered so far.  A callback registered by
  \<open>add_cookie\<close> keeps the session id and signs it when the response is produced.
\<close>

record config =
  secret :: string
  factory_timeout :: nat
  cookie_name :: string
  cookie_on_exception :: bool

datatype callback = Set_cookie string | Delete_cookie

record request =
  cookies :: "string \<rightharpoonup> string"
  exception :: "error option"
  response_callbacks :: "callback list"

definition set_cookie_callback :: "config \<Rightarrow> callback \<Rightarrow> (string \<rightharpoonup> string) \<Rightarrow> (string \<rightharpoonup> string)"
where
  "set_cookie_callback cfg cb response =
     (case cb of
        Set_cookie sid \<Rightarrow>
          (let cookieval = sign_session_id sid (secret cfg)
           in response(cookie_name cfg \<mapsto> cookieval))
      | Delete_cookie \<Rightarrow> response(cookie_name cfg := None))"

definition add_cookie :: "config \<Rightarrow> string \<Rightarrow> request \<Rightarrow> request" where
  "add_cookie cfg sid req =
     (if \<not> cookie_on_exception cfg \<and> exception req = None then req
      else req\<lparr>response_callbacks := response_callbacks req @ [Set_cookie sid]\<rparr>)"

definition delete_cookie :: "request \<Rightarrow> request" where
  "delete_cookie req = req\<lparr>response_callbacks := response_callbacks req @ [Delete_cookie]\<rparr>"

text \<open>
  \<open>invalidate\<close> clears the payload (which persists the empty payload) and then calls the
  \<open>delete_cookie\<close> closure the factory gave the session, which registers a callback on
  the request.
\<close>

definition invalidate :: "session \<Rightarrow> store \<Rightarrow> request \<Rightarrow> unit outcome \<times> request" where
  "invalidate self redis req =
     (case clear self redis of
        (Inl e, self1, redis1) \<Rightarrow> ((Inl e, self1, redis1), req)
      | (Inr u, self1, redis1) \<Rightarrow> ((Inr (), self1, redis1), delete_cookie req))"

text \<open>
  The factory returns the session (or the exception that left it), the request with its
  callbacks, the store, the unpacker's buffer and the draws not yet used; \<open>None\<close> when the
  allocator is given no draw to read.  \<open>if session_id and ...\<close> is false for \<open>None\<close> and for the
  empty string.
\<close>

definition factory ::
  "config \<Rightarrow> request \<Rightarrow> store \<Rightarrow> string \<Rightarrow> string list \<Rightarrow>
   ((error + session) \<times> request \<times> store \<times> string \<times> string list) option"
where
  "factory cfg req redis unpacker rand =
     (let cookieval = cookies req (cookie_name cfg);
          sid = (case cookieval of
                   None \<Rightarrow> None
                 | Some c \<Rightarrow>
                     (case unsign_session_id c (secret cfg) of
                        Inl e \<Rightarrow> None
                      | Inr i \<Rightarrow> Some i))
      in case (case sid of
                 None \<Rightarrow> None
               | Some i \<Rightarrow> if i \<noteq> [] \<and> redis_exists i redis then Some i else None) of
           Some i \<Rightarrow>
             (case RedisSession redis i (factory_timeout cfg) unpacker of
                (r, unpacker1) \<Rightarrow> Some (r, req, redis, unpacker1, rand))
         | None \<Rightarrow>
             (case new_session_id redis (factory_timeout cfg) rand of
                None \<Rightarrow> None
              | Some (Inl e, redis1, rand1) \<Rightarrow> Some (Inl e, req, redis1, unpacker, rand1)
              | Some (Inr new_id, redis1, rand1) \<Rightarrow>
                  (let req1 = add_cookie cfg new_id req
                   in case RedisSession redis1 new_id (factory_timeout cfg) unpacker of
                        (Inl e, unpacker1) \<Rightarrow> Some (Inl e, req1, redis1, unpacker1, rand1)
                      | (Inr session, unpacker1) \<Rightarrow>
                          Some (Inr (session\<lparr>v_new := True\<rparr>), req1, redis1, unpacker1,
                                rand1))))"

section \<open>Properties of the library functions\<close>

subsection \<open>Lengths of digests and signatures\<close>

lemma length_u32_bytes: "length (u32_bytes w) = 4"
  by (simp add: u32_bytes_def)

lemma length_sha1: "length (sha1 m) = 20"
  by (simp add: sha1_def length_u32_bytes split: prod.split)

lemma length_hmac_sha1: "length (hmac_sha1 key msg) = 20"
  by (simp add: hmac_sha1_def Let_def length_sha1)

lemma length_b32_quantum: "length (b32_quantum q) = 8"
  by (simp add: b32_quantum_def Let_def)

lemma length_concat_const:
  "(\<And>x. x \<in> set xs \<Longrightarrow> length (f x) = n) \<Longrightarrow> length (concat (map f xs)) = n * length xs"
  by (induction xs) auto

lemma length_blocks_of: "length (blocks_of n xs) = length xs div n"
  by (simp add: blocks_of_def)

lemma length_b32encode_whole:
  assumes "length s mod 5 = 0"
  shows "length (b32encode s) = 8 * (length s div 5)"
  using assms
  by (simp add: b32encode_def Let_def length_concat_const [where n = 8] length_b32_quantum
      length_blocks_of)

lemma length_b32encode_digest: "length s = 20 \<Longrightarrow> length (b32encode s) = 32"
  by (simp add: length_b32encode_whole)

subsection \<open>The constant-time comparison decides equality\<close>

lemma differ_count_mono:
  "(m::nat) \<le> foldl (\<lambda>invalid_bits (a, b). invalid_bits + (if a \<noteq> b then 1 else 0)) m
             (zs :: (char \<times> char) list)"
proof (induction zs arbitrary: m)
  case Nil
  then show ?case by simp
next
  case (Cons z zs)
  obtain a b where z: "z = (a, b)" by (cases z)
  have "m \<le> m + (if a \<noteq> b then 1 else 0)" by simp
  also have "\<dots> \<le> foldl (\<lambda>invalid_bits (a, b). invalid_bits + (if a \<noteq> b then 1 else 0))
                    (m + (if a \<noteq> b then 1 else 0)) zs"
    by (rule Cons.IH)
  finally show ?case by (simp add: z)
qed

lemma differ_count_zero:
  "length xs = length ys \<Longrightarrow>
   foldl (\<lambda>invalid_bits (a, b). invalid_bits + (if a \<noteq> b then 1 else 0)) (n::nat)
     (zip (xs::string) ys) = n \<longleftrightarrow> xs = ys"
proof (induction xs ys arbitrary: n rule: list_induct2)
  case Nil
  then show ?case by simp
next
  case (Cons x xs y ys)
  show ?case
  proof (cases "x = y")
    case True
    then show ?thesis using Cons.IH [of n] by simp
  next
    case False
    have "Suc n \<le> foldl (\<lambda>invalid_bits (a, b). invalid_bits + (if a \<noteq> b then 1 else 0))
                    (Suc n) (zip xs ys)"
      by (rule differ_count_mono)
    then show ?thesis using False by simp
  qed
qed

lemma strings_differ_iff: "strings_differ s1 s2 \<longleftrightarrow> s1 \<noteq> s2"
proof (cases "length s1 = length s2")
  case True
  then show ?thesis
    using differ_count_zero [of s1 s2 0] by (simp add: strings_differ_def)
next
  case False
  then show ?thesis by (auto simp: strings_differ_def)
qed

lemma unsign_sign:
  "unsign_session_id (sign_session_id sid key) key = Inr sid"
  by (simp add: unsign_session_id_def sign_session_id_def Let_def strings_differ_iff
      length_b32encode_digest length_hmac_sha1)

lemma unsign_iff:
  "unsign_session_id cookie key = Inr sid \<longleftrightarrow> cookie = sign_session_id sid key"
proof
  assume ok: "unsign_session_id cookie key = Inr sid"
  then have id: "sid = drop 32 cookie"
    by (simp add: unsign_session_id_def Let_def split: if_splits)
  from ok have "take 32 cookie = b32encode (hmac_sha1 key (drop 32 cookie))"
    by (simp add: unsign_session_id_def Let_def strings_differ_iff split: if_splits)
  then have "cookie = b32encode (hmac_sha1 key (drop 32 cookie)) @ drop 32 cookie"
    by (metis append_take_drop_id)
  with id show "cookie = sign_session_id sid key"
    by (simp add: sign_session_id_def Let_def)
next
  assume "cookie = sign_session_id sid key"
  then show "unsign_session_id cookie key = Inr sid"
    by (simp add: unsign_sign)
qed

subsection \<open>Big-endian numbers\<close>

lemma length_be_bytes: "length (be_bytes k n) = k"
  by (simp add: be_bytes_def)

lemma be_bytes_Suc: "be_bytes (Suc k) n = char_of (n div 256 ^ k) # be_bytes k n"
  by (simp add: be_bytes_def)

lemma be_nat_foldl:
  "foldl (\<lambda>acc c. acc * 256 + of_char c) a bs = a * 256 ^ length bs + be_nat bs"
proof (induction bs arbitrary: a)
  case Nil
  then show ?case by (simp add: be_nat_def)
next
  case (Cons c bs)
  have "foldl (\<lambda>acc c. acc * 256 + of_char c) a (c # bs)
        = (a * 256 + of_char c) * 256 ^ length bs + be_nat bs"
    by (simp add: Cons.IH)
  moreover have "be_nat (c # bs) = of_char c * 256 ^ length bs + be_nat bs"
    by (simp add: be_nat_def Cons.IH [of "of_char c"])
  ultimately show ?case by (simp add: algebra_simps)
qed

lemma be_nat_Cons: "be_nat (c # bs) = of_char c * 256 ^ length bs + be_nat bs"
  using be_nat_foldl [of "of_char c" bs] by (simp add: be_nat_def)

lemma be_nat_be_bytes: "be_nat (be_bytes k n) = n mod 256 ^ k"
proof (induction k)
  case 0
  then show ?case by (simp add: be_bytes_def be_nat_def)
next
  case (Suc k)
  have "be_nat (be_bytes (Suc k) n) = (n div 256 ^ k mod 256) * 256 ^ k + n mod 256 ^ k"
    by (simp add: be_bytes_Suc be_nat_Cons length_be_bytes Suc.IH)
  also have "\<dots> = n mod (256 ^ k * 256)"
    by (simp add: mod_mult2_eq [of n "256 ^ k" 256])
  also have "\<dots> = n mod 256 ^ Suc k"
    by (simp add: mult.commute)
  finally show ?case .
qed

lemma be_nat_be_bytes_small: "n < 256 ^ k \<Longrightarrow> be_nat (be_bytes k n) = n"
  by (simp add: be_nat_be_bytes)

lemma take_exact_append: "length h = n \<Longrightarrow> take_exact n (h @ rest) = Inr (h, rest)"
  by (simp add: take_exact_def)

lemma of_char_char_of_small: "n < 256 \<Longrightarrow> of_char (char_of n) = (n::nat)"
  by simp


subsection \<open>The decoder undoes the packer\<close>

lemma unpack_obj_byte:
  "b < 256 \<Longrightarrow> unpack_obj (Suc fuel) (char_of b # bs) =
     (if b < 0x80 then Inr (PyInt (int b), bs)
         else if b < 0x90 then
           (case unpack_map fuel (b - 0x80) bs of
              Inl e \<Rightarrow> Inl e
            | Inr (m, rest) \<Rightarrow> Inr (PyDict (dict_of_items m), rest))
         else if b < 0xa0 then
           (case unpack_array fuel (b - 0x90) bs of
              Inl e \<Rightarrow> Inl e
            | Inr (xs, rest) \<Rightarrow> Inr (PyList xs, rest))
         else if b < 0xc0 then unpack_raw (b - 0xa0) bs
         else if b = 0xc0 then Inr (PyNone, bs)
         else if b = 0xc1 then Inl ValueError
         else if b = 0xc2 then Inr (PyBool False, bs)
         else if b = 0xc3 then Inr (PyBool True, bs)
         else if b = 0xcc then unpack_uint 1 bs
         else if b = 0xcd then unpack_uint 2 bs
         else if b = 0xce then unpack_uint 4 bs
         else if b = 0xcf then unpack_uint 8 bs
         else if b = 0xd0 then unpack_sint 1 bs
         else if b = 0xd1 then unpack_sint 2 bs
         else if b = 0xd2 then unpack_sint 4 bs
         else if b = 0xd3 then unpack_sint 8 bs
         else if b = 0xda \<or> b = 0xdb then
           (case take_exact (if b = 0xda then 2 else 4) bs of
              Inl e \<Rightarrow> Inl e
            | Inr (h, rest) \<Rightarrow> unpack_raw (be_nat h) rest)
         else if b = 0xdc \<or> b = 0xdd then
           (case take_exact (if b = 0xdc then 2 else 4) bs of
              Inl e \<Rightarrow> Inl e
            | Inr (h, rest) \<Rightarrow>
                (case unpack_array fuel (be_nat h) rest of
                   Inl e \<Rightarrow> Inl e
                 | Inr (xs, rest') \<Rightarrow> Inr (PyList xs, rest')))
         else if b = 0xde \<or> b = 0xdf then
           (case take_exact (if b = 0xde then 2 else 4) bs of
              Inl e \<Rightarrow> Inl e
            | Inr (h, rest) \<Rightarrow>
                (case unpack_map fuel (be_nat h) rest of
                   Inl e \<Rightarrow> Inl e
                 | Inr (m, rest') \<Rightarrow> Inr (PyDict (dict_of_items m), rest')))
         else if 0xe0 \<le> b then Inr (PyInt (int b - 256), bs)
         else Inl Unmodelled)"
  by (simp only: unpack_obj.simps Let_def of_char_char_of_small)



lemma unpack_uint_be:
  "n < 256 ^ k \<Longrightarrow> unpack_uint k (be_bytes k n @ rest) = Inr (PyInt (int n), rest)"
  by (simp add: unpack_uint_def take_exact_append length_be_bytes be_nat_be_bytes_small)

lemma unpack_sint_be:
  assumes "- (2 ^ (8 * k - 1)) \<le> d" "d < 0" "0 < k"
  shows "unpack_sint k (be_bytes k (nat (2 ^ (8 * k) + d)) @ rest) = Inr (PyInt d, rest)"
proof -
  define P :: int where "P = 2 ^ (8 * k - 1)"
  have P_pos: "0 \<le> P" by (simp add: P_def)
  have "8 * k = Suc (8 * k - 1)" using assms(3) by simp
  then have half: "(2::int) ^ (8 * k) = 2 * P"
    unfolding P_def by (metis power_Suc)
  have d_low: "- P \<le> d" using assms(1) by (simp add: P_def)
  define u where "u = nat (2 ^ (8 * k) + d)"
  have u_int: "int u = 2 * P + d"
    using d_low P_pos half by (simp add: u_def)
  have "int u < int (2 ^ (8 * k))" using u_int assms(2) half by simp
  then have "u < 2 ^ (8 * k)" by (simp only: of_nat_less_iff)
  then have u_small: "u < 256 ^ k" by (simp add: power_mult)
  have "int (2 ^ (8 * k - 1)) \<le> int u" using u_int d_low by (simp add: P_def)
  then have u_big: "\<not> u < 2 ^ (8 * k - 1)" by (simp only: of_nat_le_iff not_less)
  have res: "int u - 2 ^ (8 * k) = d" using u_int half by simp
  have "unpack_sint k (be_bytes k u @ rest)
        = Inr (PyInt (if u < 2 ^ (8 * k - 1) then int u else int u - 2 ^ (8 * k)), rest)"
    by (simp add: unpack_sint_def take_exact_append length_be_bytes
        be_nat_be_bytes_small [OF u_small])
  also have "(if u < 2 ^ (8 * k - 1) then int u else int u - 2 ^ (8 * k)) = d"
    by (simp only: u_big if_False res)
  finally show ?thesis
    by (simp only: u_def)
qed

lemma unpack_obj_pack_int:
  assumes "- (2 ^ 63) \<le> d" "d < 2 ^ 64"
  shows "unpack_obj (Suc fuel) (pack_int d @ rest) = Inr (PyInt d, rest)"
proof -
  consider "d < - (2 ^ 31)" | "- (2 ^ 31) \<le> d" "d < - (2 ^ 15)"
    | "- (2 ^ 15) \<le> d" "d < - (2 ^ 7)" | "- (2 ^ 7) \<le> d" "d < - (2 ^ 5)"
    | "- (2 ^ 5) \<le> d" "d < 0" | "0 \<le> d" "d < 2 ^ 7" | "2 ^ 7 \<le> d" "d < 2 ^ 8"
    | "2 ^ 8 \<le> d" "d < 2 ^ 16" | "2 ^ 16 \<le> d" "d < 2 ^ 32" | "2 ^ 32 \<le> d"
    by linarith
  then show ?thesis
  proof cases
    case 1
    then show ?thesis
      using unpack_sint_be [of 8 d rest] assms by (simp add: pack_int_def)
  next
    case 2
    then show ?thesis
      using unpack_sint_be [of 4 d rest] by (simp add: pack_int_def)
  next
    case 3
    then show ?thesis
      using unpack_sint_be [of 2 d rest] by (simp add: pack_int_def)
  next
    case 4
    then show ?thesis
      using unpack_sint_be [of 1 d rest] by (simp add: pack_int_def)
  next
    case 5
    then have "- 32 \<le> d" "d < 0" by simp_all
    then have "d mod 256 = 256 + d" by presburger
    with 5 have b: "nat (d mod 256) = nat (256 + d)" "nat (256 + d) < 256" "224 \<le> nat (256 + d)"
      by simp_all
    show ?thesis
      using 5 b(2,3) by (simp add: pack_int_def b(1) unpack_obj_byte)
  next
    case 6
    then have b: "nat (d mod 256) = nat d" "nat d < 128"
      by simp_all
    show ?thesis
      using 6 b(2) by (simp add: pack_int_def b(1) unpack_obj_byte)
  next
    case 7
    then show ?thesis
      using unpack_uint_be [of "nat d" 1 rest] by (simp add: pack_int_def)
  next
    case 8
    then show ?thesis
      using unpack_uint_be [of "nat d" 2 rest] by (simp add: pack_int_def)
  next
    case 9
    then show ?thesis
      using unpack_uint_be [of "nat d" 4 rest] by (simp add: pack_int_def)
  next
    case 10
    then show ?thesis
      using unpack_uint_be [of "nat d" 8 rest] assms by (simp add: pack_int_def)
  qed
qed


lemma unpack_raw_append: "unpack_raw (length s) (s @ rest) = Inr (PyStr s, rest)"
  by (simp add: unpack_raw_def take_exact_append)

lemma unpack_obj_pack_raw:
  assumes "length s < 2 ^ 32"
  shows "unpack_obj (Suc fuel) (pack_raw s @ rest) = Inr (PyStr s, rest)"
proof -
  consider "length s < 32" | "32 \<le> length s" "length s < 2 ^ 16" | "2 ^ 16 \<le> length s"
    by linarith
  then show ?thesis
  proof cases
    case 1
    then show ?thesis
      by (simp add: pack_raw_def unpack_obj_byte unpack_raw_append)
  next
    case 2
    then show ?thesis
      by (simp add: pack_raw_def take_exact_append length_be_bytes be_nat_be_bytes_small
          unpack_raw_append)
  next
    case 3
    then show ?thesis
      using assms
      by (simp add: pack_raw_def take_exact_append length_be_bytes be_nat_be_bytes_small
          unpack_raw_append)
  qed
qed

lemma unpack_obj_array_header:
  assumes "n < 2 ^ 32"
  shows "unpack_obj (Suc fuel) (pack_array_header n @ bs) =
           (case unpack_array fuel n bs of
              Inl e \<Rightarrow> Inl e
            | Inr (xs, rest) \<Rightarrow> Inr (PyList xs, rest))"
proof -
  consider "n < 16" | "16 \<le> n" "n < 2 ^ 16" | "2 ^ 16 \<le> n"
    by linarith
  then show ?thesis
  proof cases
    case 1
    then show ?thesis
      by (simp add: pack_array_header_def unpack_obj_byte)
  next
    case 2
    then show ?thesis
      by (simp add: pack_array_header_def take_exact_append length_be_bytes
          be_nat_be_bytes_small)
  next
    case 3
    then show ?thesis
      using assms
      by (simp add: pack_array_header_def take_exact_append length_be_bytes
          be_nat_be_bytes_small)
  qed
qed

lemma unpack_obj_map_header:
  assumes "n < 2 ^ 32"
  shows "unpack_obj (Suc fuel) (pack_map_header n @ bs) =
           (case unpack_map fuel n bs of
              Inl e \<Rightarrow> Inl e
            | Inr (m, rest) \<Rightarrow> Inr (PyDict (dict_of_items m), rest))"
proof -
  consider "n < 16" | "16 \<le> n" "n < 2 ^ 16" | "2 ^ 16 \<le> n"
    by linarith
  then show ?thesis
  proof cases
    case 1
    then show ?thesis
      by (simp add: pack_map_header_def unpack_obj_byte)
  next
    case 2
    then show ?thesis
      by (simp add: pack_map_header_def take_exact_append length_be_bytes
          be_nat_be_bytes_small)
  next
    case 3
    then show ?thesis
      using assms
      by (simp add: pack_map_header_def take_exact_append length_be_bytes
          be_nat_be_bytes_small)
  qed
qed

lemma update_fresh: "k \<notin> fst ` set d \<Longrightarrow> AList.update k v d = d @ [(k, v)]"
  by (induction d) auto

lemma dict_of_items_foldl:
  "distinct (map fst (d @ kvs)) \<Longrightarrow>
   foldl (\<lambda>d (k, v). AList.update k v d) d kvs = d @ kvs"
proof (induction kvs arbitrary: d)
  case Nil
  then show ?case by simp
next
  case (Cons kv kvs)
  obtain k v where kv: "kv = (k, v)" by (cases kv)
  from Cons.prems have fresh: "k \<notin> fst ` set d" by (auto simp: kv)
  from Cons.prems have "distinct (map fst ((d @ [(k, v)]) @ kvs))" by (simp add: kv)
  then have "foldl (\<lambda>d (k, v). AList.update k v d) (d @ [(k, v)]) kvs = (d @ [(k, v)]) @ kvs"
    by (rule Cons.IH)
  then show ?case by (simp add: kv update_fresh [OF fresh])
qed

lemma dict_of_items_distinct: "distinct (map fst m) \<Longrightarrow> dict_of_items m = m"
  using dict_of_items_foldl [of "[]" m] by (simp add: dict_of_items_def)

lemma pack_header_nonempty:
  "pack_int d \<noteq> []" "pack_raw s \<noteq> []" "pack_array_header n \<noteq> []" "pack_map_header n \<noteq> []"
  by (simp_all add: pack_int_def pack_raw_def pack_array_header_def pack_map_header_def Let_def)

lemma pack_nonempty: "pack v \<noteq> []"
  by (cases v) (simp_all add: pack_header_nonempty)


lemma unpack_pack_aux:
  "fits v \<Longrightarrow> well_formed v \<Longrightarrow> length (pack v) \<le> fuel \<Longrightarrow>
     unpack_obj fuel (pack v @ rest) = Inr (v, rest)"
  "fits_list xs \<Longrightarrow> well_formed_list xs \<Longrightarrow> length (pack_list xs) \<le> fuel \<Longrightarrow>
     unpack_array fuel (length xs) (pack_list xs @ rest) = Inr (xs, rest)"
  "fits_items m \<Longrightarrow> well_formed_items m \<Longrightarrow> length (pack_items m) \<le> fuel \<Longrightarrow>
     unpack_map fuel (length m) (pack_items m @ rest) = Inr (m, rest)"
proof (induction v and xs and m arbitrary: fuel rest and fuel rest and fuel rest
    rule: pack_pack_list_pack_items.induct)
  case 1
  then obtain f where "fuel = Suc f" by (cases fuel) simp_all
  then show ?case by simp
next
  case (2 b)
  then obtain f where "fuel = Suc f" by (cases fuel) simp_all
  then show ?case by simp
next
  case (3 d)
  from 3 pack_header_nonempty(1) [of d] obtain f where "fuel = Suc f"
    by (cases fuel) simp_all
  with 3 show ?case by (simp add: unpack_obj_pack_int)
next
  case (4 s)
  from 4 pack_header_nonempty(2) [of s] obtain f where "fuel = Suc f"
    by (cases fuel) simp_all
  with 4 show ?case by (simp add: unpack_obj_pack_raw)
next
  case (5 xs)
  from 5 pack_header_nonempty(3) [of "length xs"] obtain f where f: "fuel = Suc f"
    by (cases fuel) simp_all
  have "length (pack (PyList xs)) = length (pack_array_header (length xs)) + length (pack_list xs)"
    by simp
  moreover have "1 \<le> length (pack_array_header (length xs))"
    using pack_header_nonempty(3) [of "length xs"]
    by (cases "pack_array_header (length xs)") simp_all
  ultimately have "length (pack_list xs) \<le> f" using 5(4) f by linarith
  with 5 have "unpack_array f (length xs) (pack_list xs @ rest) = Inr (xs, rest)" by simp
  with 5(2) f show ?case by (simp add: unpack_obj_array_header)
next
  case (6 m)
  from 6 pack_header_nonempty(4) [of "length m"] obtain f where f: "fuel = Suc f"
    by (cases fuel) simp_all
  have "length (pack (PyDict m)) = length (pack_map_header (length m)) + length (pack_items m)"
    by simp
  moreover have "1 \<le> length (pack_map_header (length m))"
    using pack_header_nonempty(4) [of "length m"]
    by (cases "pack_map_header (length m)") simp_all
  ultimately have "length (pack_items m) \<le> f" using 6(4) f by linarith
  with 6 have "unpack_map f (length m) (pack_items m @ rest) = Inr (m, rest)" by simp
  with 6(2,3) f show ?case by (simp add: unpack_obj_map_header dict_of_items_distinct)
next
  case 7
  then show ?case by simp
next
  case (8 x xs)
  then show ?case by simp
next
  case 9
  then show ?case by simp
next
  case (10 k v m)
  from 10(3,5) pack_header_nonempty(2) [of k] obtain f where f: "fuel = Suc f"
    by (cases fuel) simp_all
  from 10(3) have k: "unpack_obj fuel (pack_raw k @ pack v @ pack_items m @ rest)
      = Inr (PyStr k, pack v @ pack_items m @ rest)"
    by (simp add: f unpack_obj_pack_raw)
  from 10 have v: "unpack_obj fuel (pack v @ pack_items m @ rest) = Inr (v, pack_items m @ rest)"
    by simp
  from 10 have m: "unpack_map fuel (length m) (pack_items m @ rest) = Inr (m, rest)"
    by simp
  show ?case by (simp add: k v m)
qed

subsection \<open>The codec with an idle unpacker\<close>

lemma deserialize_serialize_idle:
  assumes "serialize obj = Inr data" "well_formed obj"
  shows "deserialize (Some data) [] = (Inr obj, [])"
proof -
  from assms(1) have p: "fits obj" and d: "data = pack obj"
    by (auto simp: serialize_def packable_def split: if_splits)
  have "unpack_obj (length (pack obj)) (pack obj @ []) = Inr (obj, [])"
    by (rule unpack_pack_aux(1) [OF p assms(2)]) simp
  then show ?thesis
    by (simp add: deserialize_def feed_def unpack_def d)
qed

lemma empty_session_eq: "empty_session = [CHR 0x80]"
  by (simp add: empty_session_def serialize_def packable_def pack_map_header_def) code_simp

lemma serialize_empty: "serialize (PyDict []) = Inr empty_session"
  by (simp add: empty_session_def serialize_def packable_def)

lemma deserialize_empty_session: "deserialize (Some empty_session) [] = (Inr (PyDict []), [])"
  by (rule deserialize_serialize_idle [OF serialize_empty]) simp

section \<open>Properties of loading and allocation\<close>

lemma from_redis_miss: "redis sid = None \<Longrightarrow> from_redis sid redis u = (Inl TypeError, u)"
  by (simp add: from_redis_def redis_get_def deserialize_def feed_def)

lemma RedisSession_miss: "redis sid = None \<Longrightarrow> RedisSession redis sid t u = (Inl TypeError, u)"
  by (simp add: RedisSession_def from_redis_miss)

lemma RedisSession_decoded:
  "redis sid = Some e \<Longrightarrow> deserialize (Some (blob e)) u = (Inr (PyDict d), u') \<Longrightarrow>
   RedisSession redis sid t u =
     (Inr \<lparr>session_id = sid, managed_dict = d, default_timeout = t,
           timeout = (if map_of d ''on'' \<noteq> None then 0 else t), v_new = False\<rparr>, u')"
  by (simp add: RedisSession_def from_redis_def redis_get_def)

lemma RedisSession_fresh:
  "map_option blob (redis sid) = Some empty_session \<Longrightarrow>
   RedisSession redis sid t [] =
     (Inr \<lparr>session_id = sid, managed_dict = [], default_timeout = t, timeout = t,
           v_new = False\<rparr>, [])"
  using RedisSession_decoded [of redis sid _ "[]" "[]" "[]" t] deserialize_empty_session
  by auto

lemma new_session_id_raises:
  "new_session_id redis t (r # rand)
   = Some (Inl TypeError, snd (redis_setnx (b32encode r) empty_session redis), rand)"
  by (simp add: Let_def getitem_bool_def split: prod.split)

lemma new_session_id_no_id:
  "new_session_id redis t rand \<noteq> Some (Inr sid, redis', rand')"
  by (cases rand) (simp_all add: new_session_id_raises del: new_session_id.simps(2))

lemma redis_setnx_fresh:
  "redis name = None \<Longrightarrow>
   redis_setnx name v redis = (True, redis(name \<mapsto> \<lparr>blob = v, ttl = None\<rparr>))"
  by (simp add: redis_setnx_def)

section \<open>The claims about signer, codec, loading and allocation\<close>

subsection \<open>Signing and verifying\<close>

text \<open>
  Claim C1.  For every session id and every secret, verifying the signed cookie value with
  the same secret gives back the id.  The signature is the base32 text of a 20-byte
  HMAC-SHA1 digest, hence exactly 32 bytes, so cutting the cookie value after 32 bytes
  separates signature and id.
\<close>

theorem sign_unsign_roundtrip:
  "length (hmac_sha1 key sid) = 20
   \<and> length (b32encode (hmac_sha1 key sid)) = 32
   \<and> take 32 (sign_session_id sid key) = b32encode (hmac_sha1 key sid)
   \<and> drop 32 (sign_session_id sid key) = sid
   \<and> unsign_session_id (sign_session_id sid key) key = Inr sid"
proof -
  have digest: "length (hmac_sha1 key sid) = 20"
    by (rule length_hmac_sha1)
  then have prefix: "length (b32encode (hmac_sha1 key sid)) = 32"
    by (rule length_b32encode_digest)
  have split: "take 32 (sign_session_id sid key) = b32encode (hmac_sha1 key sid)"
    "drop 32 (sign_session_id sid key) = sid"
    using prefix by (simp_all add: sign_session_id_def Let_def)
  have "\<not> strings_differ (b32encode (hmac_sha1 key sid)) (b32encode (hmac_sha1 key sid))"
    by (simp add: strings_differ_iff)
  then have "unsign_session_id (sign_session_id sid key) key = Inr sid"
    using split by (simp add: unsign_session_id_def Let_def)
  with digest prefix split show ?thesis by simp
qed

theorem sign_unsign_roundtrip_witness:
  "drop 32 (sign_session_id ''ABCDEF'' ''s3cr3t'') = ''ABCDEF''
   \<and> unsign_session_id (sign_session_id ''ABCDEF'' ''s3cr3t'') ''s3cr3t'' = Inr ''ABCDEF''"
  using sign_unsign_roundtrip [of "''s3cr3t''" "''ABCDEF''"] by simp

subsection \<open>The codec\<close>

text \<open>
  Claim C8 speaks of \<open>deserialize\<close> as a function of the bytes alone.  In the source it
  goes through the module's one streaming unpacker, and what it returns depends on the
  bytes an earlier call left in the buffer: after a blob that holds more than one object,
  decoding the serialized empty dict returns the left-over object.
\<close>

theorem roundtrip_stale_buffer_counterexample:
  "serialize (PyDict []) = Inr [CHR 0x80]
   \<and> deserialize (Some [CHR 0x80, CHR 0xc3]) [] = (Inr (PyDict []), [CHR 0xc3])
   \<and> deserialize (Some [CHR 0x80]) [CHR 0xc3] = (Inr (PyBool True), [CHR 0x80])
   \<and> PyBool True \<noteq> PyDict []"
proof -
  have "serialize (PyDict []) = Inr [CHR 0x80]"
    using serialize_empty by (simp add: empty_session_eq)
  moreover have "deserialize (Some [CHR 0x80, CHR 0xc3]) [] = (Inr (PyDict []), [CHR 0xc3])"
    by (simp add: deserialize_def feed_def unpack_def dict_of_items_def)
  moreover have "deserialize (Some [CHR 0x80]) [CHR 0xc3] = (Inr (PyBool True), [CHR 0x80])"
    by (simp add: deserialize_def feed_def unpack_def)
  ultimately show ?thesis by simp
qed

text \<open>
  Claim C8, amended.  For every payload the packer accepts (built from \<open>None\<close>,
  booleans, integers from \<open>-2^63\<close> to \<open>2^64 - 1\<close>, byte strings, lists and string-keyed
  dicts; floating-point numbers are not modelled), when the shared unpacker holds no unread
  bytes, \<open>deserialize(serialize(p))\<close> is \<open>p\<close>, and the unpacker holds no unread bytes
  afterwards.  (\<open>well_formed\<close> says that no association list standing for a dict repeats
  a key, which is so for every Python dict.)
\<close>

theorem deserialize_serialize_roundtrip:
  assumes "packable p" and "well_formed p"
  shows "\<exists>data. serialize p = Inr data \<and> deserialize (Some data) [] = (Inr p, [])"
proof -
  from assms(1) have "serialize p = Inr (pack p)"
    by (simp add: serialize_def)
  moreover from this assms(2) have "deserialize (Some (pack p)) [] = (Inr p, [])"
    by (rule deserialize_serialize_idle)
  ultimately show ?thesis by blast
qed

theorem deserialize_serialize_roundtrip_witness:
  "packable (PyDict [(''on'', PyBool True), (''n'', PyInt (- 70000)),
                     (''_f_'', PyList [PyStr ''hello'', PyNone])])
   \<and> well_formed (PyDict [(''on'', PyBool True), (''n'', PyInt (- 70000)),
                     (''_f_'', PyList [PyStr ''hello'', PyNone])])
   \<and> (\<exists>data. serialize (PyDict [(''on'', PyBool True), (''n'', PyInt (- 70000)),
                     (''_f_'', PyList [PyStr ''hello'', PyNone])]) = Inr data
        \<and> deserialize (Some data) []
            = (Inr (PyDict [(''on'', PyBool True), (''n'', PyInt (- 70000)),
                     (''_f_'', PyList [PyStr ''hello'', PyNone])]), []))"
proof -
  let ?p = "PyDict [(''on'', PyBool True), (''n'', PyInt (- 70000)),
                     (''_f_'', PyList [PyStr ''hello'', PyNone])]"
  have p: "packable ?p" by (simp add: packable_def)
  have w: "well_formed ?p" by simp
  from deserialize_serialize_roundtrip [OF p w] p w show ?thesis by simp
qed

subsection \<open>Loading a session\<close>

text \<open>
  Claim C3 says that loading a session whose key is absent yields an empty payload.  The
  source passes the store's answer for a missing key, \<open>None\<close>, to \<open>deserialize\<close>
  without a guard, and feeding \<open>None\<close> to the unpacker raises.
\<close>

theorem load_absent_key_counterexample:
  "redis_get ''ABCDEF'' Map.empty = None
   \<and> from_redis ''ABCDEF'' Map.empty [] = (Inl TypeError, [])
   \<and> RedisSession Map.empty ''ABCDEF'' 1200 [] = (Inl TypeError, [])"
  by (simp add: redis_get_def from_redis_miss RedisSession_miss)

text \<open>
  Claim C3, amended.  Loading a session id whose key is absent from the store fails with
  the decoder's \<open>TypeError\<close>, in \<open>from_redis\<close> and in the constructor, whatever the
  unpacker holds.  Loading yields the empty payload when the key holds the serialized empty
  payload and the unpacker is idle.
\<close>

theorem load_needs_stored_blob:
  "(redis sid = None \<longrightarrow>
      from_redis sid redis unpacker = (Inl TypeError, unpacker)
      \<and> RedisSession redis sid t unpacker = (Inl TypeError, unpacker))
   \<and> (map_option blob (redis sid) = Some empty_session \<longrightarrow>
      from_redis sid redis [] = (Inr (PyDict []), [])
      \<and> RedisSession redis sid t []
          = (Inr \<lparr>session_id = sid, managed_dict = [], default_timeout = t, timeout = t,
                  v_new = False\<rparr>, []))"
proof (intro conjI impI)
  assume "redis sid = None"
  then show "from_redis sid redis unpacker = (Inl TypeError, unpacker)"
    and "RedisSession redis sid t unpacker = (Inl TypeError, unpacker)"
    by (simp_all add: from_redis_miss RedisSession_miss)
next
  assume stored: "map_option blob (redis sid) = Some empty_session"
  then show "from_redis sid redis [] = (Inr (PyDict []), [])"
    by (auto simp: from_redis_def redis_get_def deserialize_empty_session)
  from stored show "RedisSession redis sid t []
      = (Inr \<lparr>session_id = sid, managed_dict = [], default_timeout = t, timeout = t,
              v_new = False\<rparr>, [])"
    by (rule RedisSession_fresh)
qed

theorem load_needs_stored_blob_witness:
  "from_redis ''ABCDEF'' Map.empty [] = (Inl TypeError, [])
   \<and> RedisSession Map.empty ''ABCDEF'' 1200 [] = (Inl TypeError, [])
   \<and> from_redis ''ABCDEF'' [''ABCDEF'' \<mapsto> \<lparr>blob = empty_session, ttl = Some 1200\<rparr>] []
       = (Inr (PyDict []), [])
   \<and> RedisSession [''ABCDEF'' \<mapsto> \<lparr>blob = empty_session, ttl = Some 1200\<rparr>] ''ABCDEF'' 1200 []
       = (Inr \<lparr>session_id = ''ABCDEF'', managed_dict = [], default_timeout = 1200,
               timeout = 1200, v_new = False\<rparr>, [])"
proof -
  let ?held = "[''ABCDEF'' \<mapsto> \<lparr>blob = empty_session, ttl = Some 1200\<rparr>]"
  have absent: "Map.empty ''ABCDEF'' = (None :: entry option)"
    by simp
  have present: "map_option blob (?held ''ABCDEF'') = Some empty_session"
    by simp
  from load_needs_stored_blob [of Map.empty "''ABCDEF''" "[]" 1200] absent
  have miss: "from_redis ''ABCDEF'' Map.empty [] = (Inl TypeError, [])
      \<and> RedisSession Map.empty ''ABCDEF'' 1200 [] = (Inl TypeError, [])"
    by blast
  from load_needs_stored_blob [of ?held "''ABCDEF''" "[]" 1200] present
  have hit: "from_redis ''ABCDEF'' ?held [] = (Inr (PyDict []), [])
      \<and> RedisSession ?held ''ABCDEF'' 1200 []
          = (Inr \<lparr>session_id = ''ABCDEF'', managed_dict = [], default_timeout = 1200,
                  timeout = 1200, v_new = False\<rparr>, [])"
    by blast
  from miss hit show ?thesis by blast
qed

subsection \<open>Allocation\<close>

text \<open>
  Claim C4 says that \<open>new_session_id\<close> returns a fresh id and leaves its key with the empty
  payload and, for a positive timeout, that expiration.  The source does not get that far:
  on an empty store with timeout 1200, \<open>setnx\<close> writes the key and answers \<open>True\<close>,
  \<open>val[0]\<close> raises \<open>TypeError\<close>, no id is returned and the key stays in the store without
  expiration.
\<close>

theorem new_session_id_type_error:
  "new_session_id Map.empty 1200 [''01234567890123456789'']
   = Some (Inl TypeError,
           [b32encode ''01234567890123456789'' \<mapsto> \<lparr>blob = empty_session, ttl = None\<rparr>],
           [])"
proof -
  have "redis_setnx (b32encode ''01234567890123456789'') empty_session Map.empty
      = (True, [b32encode ''01234567890123456789'' \<mapsto> \<lparr>blob = empty_session, ttl = None\<rparr>])"
    by (rule redis_setnx_fresh) simp
  then show ?thesis
    by (simp add: new_session_id_raises del: new_session_id.simps)
qed

section \<open>The claims about session methods and the factory\<close>

subsection \<open>What the decorators do\<close>

lemma persist_returns:
  assumes "persist wrapped self redis = (Inr r, self', redis')"
  shows "wrapped self = (Inr r, self')
    \<and> (\<exists>data. to_redis self' = Inr data
          \<and> redis' = (if timeout self' \<noteq> 0
                       then redis_setex (session_id self') (timeout self') data redis
                       else redis_set (session_id self') data redis))"
  using assms
  by (auto simp: persist_def split: prod.splits sum.splits if_splits)

lemma persist_raises:
  assumes "persist wrapped self redis = (Inl e, self', redis')"
  shows "redis' = redis
    \<and> (wrapped self = (Inl e, self') \<or> (\<exists>r. wrapped self = (Inr r, self') \<and> to_redis self' = Inl e))"
  using assms
  by (auto simp: persist_def split: prod.splits sum.splits if_splits)

lemma refresh_returns:
  assumes "refresh wrapped self redis = (Inr r, self', redis')"
  shows "wrapped self = (Inr r, self')
    \<and> redis' = (if timeout self' \<noteq> 0
                 then redis_expire (session_id self') (timeout self') redis else redis)"
  using assms
  by (auto simp: refresh_def split: prod.splits sum.splits if_splits)

lemma refresh_raises:
  assumes "refresh wrapped self redis = (Inl e, self', redis')"
  shows "wrapped self = (Inl e, self') \<and> redis' = redis"
  using assms
  by (auto simp: refresh_def split: prod.splits sum.splits if_splits)

lemma returning_Inr:
  "returning f out = (Inr r, self', redis') \<Longrightarrow> \<exists>x. out = (Inr x, self', redis') \<and> r = f x"
proof -
  assume a: "returning f out = (Inr r, self', redis')"
  obtain res s rd where out: "out = (res, s, rd)" by (cases out)
  show ?thesis
  proof (cases res)
    case (Inl e)
    with a out show ?thesis by (simp add: returning_def)
  next
    case (Inr x)
    with a out show ?thesis by (auto simp: returning_def)
  qed
qed

lemma returning_Inl:
  "returning f out = (Inl e, self', redis') \<Longrightarrow> out = (Inl e, self', redis')"
proof -
  assume a: "returning f out = (Inl e, self', redis')"
  obtain res s rd where out: "out = (res, s, rd)" by (cases out)
  show ?thesis
  proof (cases res)
    case (Inl e')
    with a out show ?thesis by (simp add: returning_def)
  next
    case (Inr x)
    with a out show ?thesis by (simp add: returning_def)
  qed
qed

lemma persisted_call:
  assumes "returning f (persist wrapped self redis) = (Inr r, self', redis')"
    and "\<And>x s. wrapped self = (Inr x, s) \<Longrightarrow> session_id s = session_id self"
  shows "session_id self' = session_id self
    \<and> (\<exists>data. to_redis self' = Inr data
          \<and> redis' = (if timeout self' \<noteq> 0
                       then redis_setex (session_id self) (timeout self') data redis
                       else redis_set (session_id self) data redis))"
proof -
  from assms(1) obtain x where p: "persist wrapped self redis = (Inr x, self', redis')"
    by (blast dest: returning_Inr)
  note pr = persist_returns [OF p]
  from pr have w: "wrapped self = (Inr x, self')"
    by (rule conjunct1)
  from pr have st: "\<exists>data. to_redis self' = Inr data
          \<and> redis' = (if timeout self' \<noteq> 0
                       then redis_setex (session_id self') (timeout self') data redis
                       else redis_set (session_id self') data redis)"
    by (rule conjunct2)
  from w have sid: "session_id self' = session_id self" by (rule assms(2))
  from sid st [unfolded sid] show ?thesis by blast
qed

lemma failed_call:
  assumes "returning f (persist wrapped self redis) = (Inl e, self', redis')"
  shows "redis' = redis"
proof -
  from assms have "persist wrapped self redis = (Inl e, self', redis')"
    by (rule returning_Inl)
  from persist_raises [OF this] show ?thesis by (rule conjunct1)
qed

subsection \<open>Mutating methods\<close>

text \<open>
  Claim C5.  Every call of a \<open>@persist\<close> method that returns has written the serialized
  payload of the session, as it is after the method's change, under the session's id
  before returning: with \<open>setex\<close> and the session's timeout when the timeout is
  positive, with a plain \<open>set\<close> (no expiration) when it is zero.  The timeout is the one
  the session has after the call, which matters for \<open>set_timeout\<close> and \<open>dont_expire\<close>.
  A call that raises (\<open>del\<close> of a missing key, \<open>popitem\<close> on an empty payload, a
  payload the packer refuses) writes nothing.
\<close>

theorem mutating_call_persists:
  "(call_mutating c self redis = (Inr r, self', redis') \<longrightarrow>
      session_id self' = session_id self
      \<and> (\<exists>data. to_redis self' = Inr data
            \<and> data = pack (PyDict (managed_dict self'))
            \<and> redis' = (if 0 < timeout self'
                         then redis_setex (session_id self) (timeout self') data redis
                         else redis_set (session_id self) data redis)
            \<and> redis' (session_id self)
                = Some \<lparr>blob = data,
                        ttl = (if 0 < timeout self' then Some (timeout self') else None)\<rparr>))
   \<and> (call_mutating c self redis = (Inl e, self', redis') \<longrightarrow> redis' = redis)"
proof (rule conjI; rule impI)
  assume ret: "call_mutating c self redis = (Inr r, self', redis')"
  have core: "session_id self' = session_id self
    \<and> (\<exists>data. to_redis self' = Inr data
          \<and> redis' = (if timeout self' \<noteq> 0
                       then redis_setex (session_id self) (timeout self') data redis
                       else redis_set (session_id self) data redis))"
  proof (cases c)
    case (Delitem key)
    with ret show ?thesis
      unfolding Delitem call_mutating.simps delitem_def
      by (elim persisted_call) (auto split: option.splits)
  next
    case (Setitem key v)
    with ret show ?thesis
      unfolding Setitem call_mutating.simps setitem_def
      by (elim persisted_call) auto
  next
    case (Setdefault key dflt)
    with ret show ?thesis
      unfolding Setdefault call_mutating.simps setdefault_def
      by (elim persisted_call) (auto split: option.splits)
  next
    case Clear
    with ret show ?thesis
      unfolding Clear call_mutating.simps clear_def
      by (elim persisted_call) auto
  next
    case (Pop key dflt)
    with ret show ?thesis
      unfolding Pop call_mutating.simps pop_def
      by (elim persisted_call) (auto split: option.splits)
  next
    case (Update other)
    with ret show ?thesis
      unfolding Update call_mutating.simps update_def
      by (elim persisted_call) auto
  next
    case Popitem
    with ret show ?thesis
      unfolding Popitem call_mutating.simps popitem_def
      by (elim persisted_call) (auto split: list.splits)
  next
    case Changed
    with ret show ?thesis
      unfolding Changed call_mutating.simps changed_def
      by (elim persisted_call) auto
  next
    case Set_timeout
    with ret show ?thesis
      unfolding Set_timeout call_mutating.simps set_timeout_def
      by (elim persisted_call) (auto simp: Let_def split: if_splits)
  next
    case Dont_expire
    with ret show ?thesis
      unfolding Dont_expire call_mutating.simps dont_expire_def
      by (elim persisted_call) (auto simp: Let_def)
  qed
  then obtain data where data: "to_redis self' = Inr data"
    "redis' = (if timeout self' \<noteq> 0
               then redis_setex (session_id self) (timeout self') data redis
               else redis_set (session_id self) data redis)"
    by blast
  from data(1) have packed: "data = pack (PyDict (managed_dict self'))"
    by (auto simp: to_redis_def serialize_def split: if_splits)
  from data(2) have entry: "redis' (session_id self)
      = Some \<lparr>blob = data, ttl = (if 0 < timeout self' then Some (timeout self') else None)\<rparr>"
    by (simp add: redis_setex_def redis_set_def)
  from core data packed entry
  show "session_id self' = session_id self
      \<and> (\<exists>data. to_redis self' = Inr data
            \<and> data = pack (PyDict (managed_dict self'))
            \<and> redis' = (if 0 < timeout self'
                         then redis_setex (session_id self) (timeout self') data redis
                         else redis_set (session_id self) data redis)
            \<and> redis' (session_id self)
                = Some \<lparr>blob = data,
                        ttl = (if 0 < timeout self' then Some (timeout self') else None)\<rparr>)"
    by auto
next
  assume "call_mutating c self redis = (Inl e, self', redis')"
  then show "redis' = redis"
    by (cases c)
      (auto simp: delitem_def setitem_def setdefault_def clear_def pop_def update_def
        popitem_def changed_def set_timeout_def dont_expire_def dest: failed_call)
qed


theorem mutating_call_persists_witness:
  "call_mutating (Setitem ''k'' (PyInt 1))
     \<lparr>session_id = ''ABC'', managed_dict = [], default_timeout = 1200, timeout = 1200,
      v_new = True\<rparr> Map.empty
   = (Inr Ret_none,
      \<lparr>session_id = ''ABC'', managed_dict = [(''k'', PyInt 1)], default_timeout = 1200,
       timeout = 1200, v_new = True\<rparr>,
      [''ABC'' \<mapsto> \<lparr>blob = pack (PyDict [(''k'', PyInt 1)]), ttl = Some 1200\<rparr>])
   \<and> (\<exists>redis'. call_mutating Dont_expire
          \<lparr>session_id = ''ABC'', managed_dict = [], default_timeout = 1200, timeout = 1200,
           v_new = True\<rparr> [''ABC'' \<mapsto> \<lparr>blob = ''x'', ttl = Some 7\<rparr>]
        = (Inr Ret_none,
           \<lparr>session_id = ''ABC'', managed_dict = [(''on'', PyBool True)],
            default_timeout = 1200, timeout = 0, v_new = True\<rparr>, redis')
        \<and> redis' ''ABC'' = Some \<lparr>blob = pack (PyDict [(''on'', PyBool True)]), ttl = None\<rparr>)
   \<and> call_mutating (Delitem ''k'')
     \<lparr>session_id = ''ABC'', managed_dict = [], default_timeout = 1200, timeout = 1200,
      v_new = True\<rparr> Map.empty
   = (Inl KeyError,
      \<lparr>session_id = ''ABC'', managed_dict = [], default_timeout = 1200, timeout = 1200,
       v_new = True\<rparr>, Map.empty)"
proof -
  let ?s0 = "\<lparr>session_id = ''ABC'', managed_dict = [], default_timeout = 1200,
              timeout = 1200, v_new = True\<rparr>"
  let ?s1 = "\<lparr>session_id = ''ABC'', managed_dict = [(''k'', PyInt 1)], default_timeout = 1200,
              timeout = 1200, v_new = True\<rparr>"
  let ?s2 = "\<lparr>session_id = ''ABC'', managed_dict = [(''on'', PyBool True)],
              default_timeout = 1200, timeout = 0, v_new = True\<rparr>"
  let ?old = "[''ABC'' \<mapsto> \<lparr>blob = ''x'', ttl = Some 7\<rparr>]"
  have set: "call_mutating (Setitem ''k'' (PyInt 1)) ?s0 Map.empty
      = (Inr Ret_none, ?s1, [''ABC'' \<mapsto> \<lparr>blob = pack (PyDict [(''k'', PyInt 1)]), ttl = Some 1200\<rparr>])"
    by (simp add: setitem_def persist_def returning_def to_redis_def serialize_def
        packable_def redis_setex_def)
  have "\<exists>redis'. call_mutating Dont_expire ?s0 ?old = (Inr Ret_none, ?s2, redis')"
    by (simp add: dont_expire_def persist_def returning_def to_redis_def serialize_def
        packable_def Let_def)
  then obtain redis' where dont: "call_mutating Dont_expire ?s0 ?old = (Inr Ret_none, ?s2, redis')"
    by blast
  with mutating_call_persists [of Dont_expire ?s0 ?old Ret_none ?s2 redis']
  have entry: "redis' ''ABC'' = Some \<lparr>blob = pack (PyDict [(''on'', PyBool True)]), ttl = None\<rparr>"
    by auto
  have "\<exists>redis'. call_mutating (Delitem ''k'') ?s0 Map.empty = (Inl KeyError, ?s0, redis')"
    by (simp add: delitem_def persist_def returning_def)
  then obtain redis'' where
    raised: "call_mutating (Delitem ''k'') ?s0 Map.empty = (Inl KeyError, ?s0, redis'')"
    by blast
  with mutating_call_persists [of "Delitem ''k''" ?s0 Map.empty _ ?s0 redis'' KeyError]
  have "redis'' = Map.empty" by blast
  with raised have del: "call_mutating (Delitem ''k'') ?s0 Map.empty = (Inl KeyError, ?s0, Map.empty)"
    by simp
  from set dont entry del show ?thesis by blast
qed

lemma refreshed_call:
  assumes "returning f (refresh wrapped self redis) = (Inr r, self', redis')"
    and "\<And>x s. wrapped self = (Inr x, s) \<Longrightarrow> s = self"
  shows "self' = self
    \<and> redis' = (if timeout self \<noteq> 0
                 then redis_expire (session_id self) (timeout self) redis else redis)"
proof -
  from assms(1) obtain x where p: "refresh wrapped self redis = (Inr x, self', redis')"
    by (blast dest: returning_Inr)
  note rr = refresh_returns [OF p]
  from rr have "wrapped self = (Inr x, self')" by (rule conjunct1)
  then have same: "self' = self" by (rule assms(2))
  from rr have "redis' = (if timeout self' \<noteq> 0
                 then redis_expire (session_id self') (timeout self') redis else redis)"
    by (rule conjunct2)
  with same show ?thesis by simp
qed

lemma unrefreshed_call:
  assumes "returning f (refresh wrapped self redis) = (Inl e, self', redis')"
    and "\<And>s. wrapped self = (Inl e, s) \<Longrightarrow> s = self"
  shows "self' = self \<and> redis' = redis"
proof -
  from assms(1) have "refresh wrapped self redis = (Inl e, self', redis')"
    by (rule returning_Inl)
  note rr = refresh_raises [OF this]
  from rr have "wrapped self = (Inl e, self')" by (rule conjunct1)
  then have "self' = self" by (rule assms(2))
  moreover from rr have "redis' = redis" by (rule conjunct2)
  ultimately show ?thesis by simp
qed

lemma redis_expire_frame:
  "map_option blob (redis_expire name t redis k) = map_option blob (redis k) \<or> t = 0"
  "k \<noteq> name \<Longrightarrow> redis_expire name t redis k = redis k"
  "0 < t \<Longrightarrow> redis name = Some e \<Longrightarrow> redis_expire name t redis name = Some (e\<lparr>ttl := Some t\<rparr>)"
  "redis name = None \<Longrightarrow> redis_expire name t redis = redis"
  by (auto simp: redis_expire_def split: option.splits)

subsection \<open>Read-only methods\<close>

text \<open>
  Claim C6.  A call of a \<open>@refresh\<close> method that returns leaves the session object as it
  was and changes the store by at most one \<open>expire\<close>: the expiration of the session's key
  is set to the timeout when the timeout is positive, and the store is left untouched when
  it is zero.  No blob in the store changes.  A call that raises (\<open>session[key]\<close> for a
  missing key) raises before the decorator reaches the store.
\<close>

theorem reading_call_refreshes:
  "(call_reading c self redis = (Inr r, self', redis') \<longrightarrow>
      self' = self
      \<and> redis' = (if 0 < timeout self
                   then redis_expire (session_id self) (timeout self) redis else redis)
      \<and> (timeout self = 0 \<longrightarrow> redis' = redis)
      \<and> (\<forall>k. map_option blob (redis' k) = map_option blob (redis k))
      \<and> (\<forall>k. k \<noteq> session_id self \<longrightarrow> redis' k = redis k)
      \<and> (\<forall>old. 0 < timeout self \<and> redis (session_id self) = Some old \<longrightarrow>
            redis' (session_id self) = Some (old\<lparr>ttl := Some (timeout self)\<rparr>)))
   \<and> (call_reading c self redis = (Inl e, self', redis') \<longrightarrow> self' = self \<and> redis' = redis)"
proof (rule conjI; rule impI)
  assume ret: "call_reading c self redis = (Inr r, self', redis')"
  have core: "self' = self
    \<and> redis' = (if timeout self \<noteq> 0
                 then redis_expire (session_id self) (timeout self) redis else redis)"
  proof (cases c)
    case (Getitem key)
    with ret show ?thesis
      unfolding Getitem call_reading.simps getitem_def
      by (elim refreshed_call) (auto split: option.splits)
  next
    case (Contains key)
    with ret show ?thesis
      unfolding Contains call_reading.simps contains_def
      by (elim refreshed_call) auto
  next
    case Keys
    with ret show ?thesis
      unfolding Keys call_reading.simps keys_def
      by (elim refreshed_call) auto
  next
    case Items
    with ret show ?thesis
      unfolding Items call_reading.simps items_def
      by (elim refreshed_call) auto
  next
    case (Get key dflt)
    with ret show ?thesis
      unfolding Get call_reading.simps get_def
      by (elim refreshed_call) auto
  next
    case Iter
    with ret show ?thesis
      unfolding Iter call_reading.simps iter_def
      by (elim refreshed_call) auto
  next
    case (Has_key key)
    with ret show ?thesis
      unfolding Has_key call_reading.simps has_key_def
      by (elim refreshed_call) auto
  next
    case Values
    with ret show ?thesis
      unfolding Values call_reading.simps session_values_def
      by (elim refreshed_call) auto
  next
    case Itervalues
    with ret show ?thesis
      unfolding Itervalues call_reading.simps itervalues_def
      by (elim refreshed_call) auto
  next
    case Iteritems
    with ret show ?thesis
      unfolding Iteritems call_reading.simps iteritems_def
      by (elim refreshed_call) auto
  next
    case Iterkeys
    with ret show ?thesis
      unfolding Iterkeys call_reading.simps iterkeys_def
      by (elim refreshed_call) auto
  qed
  then have same: "self' = self"
    and st: "redis' = (if 0 < timeout self
                   then redis_expire (session_id self) (timeout self) redis else redis)"
    by simp_all
  have blobs: "\<forall>k. map_option blob (redis' k) = map_option blob (redis k)"
    using st redis_expire_frame(1) [of "session_id self" "timeout self" redis] by auto
  have others: "\<forall>k. k \<noteq> session_id self \<longrightarrow> redis' k = redis k"
    using st by (simp add: redis_expire_frame(2))
  have own: "\<forall>old. 0 < timeout self \<and> redis (session_id self) = Some old \<longrightarrow>
            redis' (session_id self) = Some (old\<lparr>ttl := Some (timeout self)\<rparr>)"
    using st by (simp add: redis_expire_frame(3))
  from same st blobs others own
  show "self' = self
      \<and> redis' = (if 0 < timeout self
                   then redis_expire (session_id self) (timeout self) redis else redis)
      \<and> (timeout self = 0 \<longrightarrow> redis' = redis)
      \<and> (\<forall>k. map_option blob (redis' k) = map_option blob (redis k))
      \<and> (\<forall>k. k \<noteq> session_id self \<longrightarrow> redis' k = redis k)
      \<and> (\<forall>old. 0 < timeout self \<and> redis (session_id self) = Some old \<longrightarrow>
            redis' (session_id self) = Some (old\<lparr>ttl := Some (timeout self)\<rparr>))"
    by simp
next
  assume "call_reading c self redis = (Inl e, self', redis')"
  then show "self' = self \<and> redis' = redis"
    by (cases c)
      (auto simp: getitem_def contains_def keys_def items_def get_def iter_def has_key_def
        session_values_def itervalues_def iteritems_def iterkeys_def
        dest!: unrefreshed_call split: option.splits)
qed


theorem reading_call_refreshes_witness:
  "(\<exists>redis'. call_reading (Get ''k'' PyNone)
        \<lparr>session_id = ''ABC'', managed_dict = [], default_timeout = 1200, timeout = 1200,
         v_new = False\<rparr> [''ABC'' \<mapsto> \<lparr>blob = ''x'', ttl = Some 7\<rparr>]
      = (Inr (Ret_obj PyNone),
         \<lparr>session_id = ''ABC'', managed_dict = [], default_timeout = 1200, timeout = 1200,
          v_new = False\<rparr>, redis')
      \<and> redis' ''ABC'' = Some \<lparr>blob = ''x'', ttl = Some 1200\<rparr>)
   \<and> (\<exists>redis'. call_reading Keys
        \<lparr>session_id = ''ABC'', managed_dict = [(''on'', PyBool True)], default_timeout = 1200,
         timeout = 0, v_new = False\<rparr> [''ABC'' \<mapsto> \<lparr>blob = ''x'', ttl = None\<rparr>]
      = (Inr (Ret_keys [''on'']),
         \<lparr>session_id = ''ABC'', managed_dict = [(''on'', PyBool True)], default_timeout = 1200,
          timeout = 0, v_new = False\<rparr>, redis')
      \<and> redis' = [''ABC'' \<mapsto> \<lparr>blob = ''x'', ttl = None\<rparr>])
   \<and> (\<exists>redis'. call_reading (Getitem ''k'')
        \<lparr>session_id = ''ABC'', managed_dict = [], default_timeout = 1200, timeout = 1200,
         v_new = False\<rparr> [''ABC'' \<mapsto> \<lparr>blob = ''x'', ttl = Some 7\<rparr>]
      = (Inl KeyError,
         \<lparr>session_id = ''ABC'', managed_dict = [], default_timeout = 1200, timeout = 1200,
          v_new = False\<rparr>, redis')
      \<and> redis' = [''ABC'' \<mapsto> \<lparr>blob = ''x'', ttl = Some 7\<rparr>])"
proof -
  let ?a = "\<lparr>session_id = ''ABC'', managed_dict = [], default_timeout = 1200, timeout = 1200,
             v_new = False\<rparr>"
  let ?b = "\<lparr>session_id = ''ABC'', managed_dict = [(''on'', PyBool True)],
              default_timeout = 1200, timeout = 0, v_new = False\<rparr>"
  let ?old = "[''ABC'' \<mapsto> \<lparr>blob = ''x'', ttl = Some 7\<rparr>]"
  let ?idle = "[''ABC'' \<mapsto> \<lparr>blob = ''x'', ttl = None\<rparr>]"
  have "\<exists>redis'. call_reading (Get ''k'' PyNone) ?a ?old = (Inr (Ret_obj PyNone), ?a, redis')"
    by (simp add: get_def refresh_def returning_def)
  then obtain r1 where get: "call_reading (Get ''k'' PyNone) ?a ?old = (Inr (Ret_obj PyNone), ?a, r1)"
    by blast
  with reading_call_refreshes [of "Get ''k'' PyNone" ?a ?old "Ret_obj PyNone" ?a r1]
  have "r1 ''ABC'' = Some (\<lparr>blob = ''x'', ttl = Some 7\<rparr>\<lparr>ttl := Some 1200\<rparr>)"
    by (simp add: redis_expire_def)
  then have ttl: "r1 ''ABC'' = Some \<lparr>blob = ''x'', ttl = Some 1200\<rparr>" by simp
  have "\<exists>redis'. call_reading Keys ?b ?idle = (Inr (Ret_keys [''on'']), ?b, redis')"
    by (simp add: keys_def refresh_def returning_def)
  then obtain r2 where keys: "call_reading Keys ?b ?idle = (Inr (Ret_keys [''on'']), ?b, r2)"
    by blast
  with reading_call_refreshes [of Keys ?b ?idle "Ret_keys [''on'']" ?b r2]
  have untouched: "r2 = ?idle" by simp
  have "\<exists>redis'. call_reading (Getitem ''k'') ?a ?old = (Inl KeyError, ?a, redis')"
    by (simp add: getitem_def refresh_def returning_def)
  then obtain r3 where miss: "call_reading (Getitem ''k'') ?a ?old = (Inl KeyError, ?a, r3)"
    by blast
  with reading_call_refreshes [of "Getitem ''k''" ?a ?old _ ?a r3 KeyError]
  have raised: "r3 = ?old" by simp
  from get ttl keys untouched miss raised show ?thesis by blast
qed

subsection \<open>Calls that change nothing still write\<close>

text \<open>
  Claim C10.  \<open>pop\<close> of an absent key with a default, \<open>setdefault\<close> of a present key and
  \<open>changed()\<close> leave the session object as it was, and still write its serialized payload
  to the store, whatever the store held before, with the expiration the timeout asks for.
\<close>

theorem unchanged_payload_is_written:
  assumes "packable (PyDict (managed_dict self))"
  shows "(map_of (managed_dict self) key = None \<longrightarrow>
            pop key dflt self redis
            = (Inr dflt, self,
               if 0 < timeout self
               then redis_setex (session_id self) (timeout self)
                      (pack (PyDict (managed_dict self))) redis
               else redis_set (session_id self) (pack (PyDict (managed_dict self))) redis))
      \<and> (map_of (managed_dict self) key = Some v \<longrightarrow>
            setdefault key dflt self redis
            = (Inr v, self,
               if 0 < timeout self
               then redis_setex (session_id self) (timeout self)
                      (pack (PyDict (managed_dict self))) redis
               else redis_set (session_id self) (pack (PyDict (managed_dict self))) redis))
      \<and> changed self redis
          = (Inr (), self,
             if 0 < timeout self
             then redis_setex (session_id self) (timeout self)
                    (pack (PyDict (managed_dict self))) redis
             else redis_set (session_id self) (pack (PyDict (managed_dict self))) redis)
      \<and> (if 0 < timeout self
          then redis_setex (session_id self) (timeout self)
                 (pack (PyDict (managed_dict self))) redis
          else redis_set (session_id self) (pack (PyDict (managed_dict self))) redis)
           (session_id self)
          = Some \<lparr>blob = pack (PyDict (managed_dict self)),
                  ttl = (if 0 < timeout self then Some (timeout self) else None)\<rparr>"
proof (intro conjI impI)
  assume "map_of (managed_dict self) key = None"
  with assms show "pop key dflt self redis
            = (Inr dflt, self,
               if 0 < timeout self
               then redis_setex (session_id self) (timeout self)
                      (pack (PyDict (managed_dict self))) redis
               else redis_set (session_id self) (pack (PyDict (managed_dict self))) redis)"
    by (simp add: pop_def persist_def to_redis_def serialize_def)
next
  assume "map_of (managed_dict self) key = Some v"
  with assms show "setdefault key dflt self redis
            = (Inr v, self,
               if 0 < timeout self
               then redis_setex (session_id self) (timeout self)
                      (pack (PyDict (managed_dict self))) redis
               else redis_set (session_id self) (pack (PyDict (managed_dict self))) redis)"
    by (simp add: setdefault_def persist_def to_redis_def serialize_def)
next
  from assms show "changed self redis
          = (Inr (), self,
             if 0 < timeout self
             then redis_setex (session_id self) (timeout self)
                    (pack (PyDict (managed_dict self))) redis
             else redis_set (session_id self) (pack (PyDict (managed_dict self))) redis)"
    by (simp add: changed_def persist_def to_redis_def serialize_def)
next
  show "(if 0 < timeout self
          then redis_setex (session_id self) (timeout self)
                 (pack (PyDict (managed_dict self))) redis
          else redis_set (session_id self) (pack (PyDict (managed_dict self))) redis)
           (session_id self)
          = Some \<lparr>blob = pack (PyDict (managed_dict self)),
                  ttl = (if 0 < timeout self then Some (timeout self) else None)\<rparr>"
    by (simp add: redis_setex_def redis_set_def)
qed

theorem unchanged_payload_is_written_witness:
  "packable (PyDict [(''a'', PyInt 1)])
   \<and> pop ''zz'' PyNone
        \<lparr>session_id = ''ABC'', managed_dict = [(''a'', PyInt 1)], default_timeout = 1200,
         timeout = 1200, v_new = False\<rparr> Map.empty
      = (Inr PyNone,
         \<lparr>session_id = ''ABC'', managed_dict = [(''a'', PyInt 1)], default_timeout = 1200,
          timeout = 1200, v_new = False\<rparr>,
         [''ABC'' \<mapsto> \<lparr>blob = pack (PyDict [(''a'', PyInt 1)]), ttl = Some 1200\<rparr>])
   \<and> setdefault ''a'' PyNone
        \<lparr>session_id = ''ABC'', managed_dict = [(''a'', PyInt 1)], default_timeout = 1200,
         timeout = 1200, v_new = False\<rparr> Map.empty
      = (Inr (PyInt 1),
         \<lparr>session_id = ''ABC'', managed_dict = [(''a'', PyInt 1)], default_timeout = 1200,
          timeout = 1200, v_new = False\<rparr>,
         [''ABC'' \<mapsto> \<lparr>blob = pack (PyDict [(''a'', PyInt 1)]), ttl = Some 1200\<rparr>])
   \<and> changed
        \<lparr>session_id = ''ABC'', managed_dict = [(''a'', PyInt 1)], default_timeout = 1200,
         timeout = 1200, v_new = False\<rparr> Map.empty
      = (Inr (),
         \<lparr>session_id = ''ABC'', managed_dict = [(''a'', PyInt 1)], default_timeout = 1200,
          timeout = 1200, v_new = False\<rparr>,
         [''ABC'' \<mapsto> \<lparr>blob = pack (PyDict [(''a'', PyInt 1)]), ttl = Some 1200\<rparr>])"
proof -
  let ?a = "\<lparr>session_id = ''ABC'', managed_dict = [(''a'', PyInt 1)], default_timeout = 1200,
             timeout = 1200, v_new = False\<rparr>"
  have p: "packable (PyDict (managed_dict ?a))" by (simp add: packable_def)
  have absent: "map_of (managed_dict ?a) ''zz'' = None" by simp
  have present: "map_of (managed_dict ?a) ''a'' = Some (PyInt 1)" by simp
  note w = unchanged_payload_is_written [OF p, of "''zz''" PyNone Map.empty]
  note w' = unchanged_payload_is_written [OF p, of "''a''" PyNone Map.empty "PyInt 1"]
  from w absent have "pop ''zz'' PyNone ?a Map.empty
      = (Inr PyNone, ?a, [''ABC'' \<mapsto> \<lparr>blob = pack (PyDict [(''a'', PyInt 1)]), ttl = Some 1200\<rparr>])"
    by (simp add: redis_setex_def)
  moreover from w' present have "setdefault ''a'' PyNone ?a Map.empty
      = (Inr (PyInt 1), ?a, [''ABC'' \<mapsto> \<lparr>blob = pack (PyDict [(''a'', PyInt 1)]), ttl = Some 1200\<rparr>])"
    by (simp add: redis_setex_def)
  moreover from w have "changed ?a Map.empty
      = (Inr (), ?a, [''ABC'' \<mapsto> \<lparr>blob = pack (PyDict [(''a'', PyInt 1)]), ttl = Some 1200\<rparr>])"
    by (simp add: redis_setex_def)
  ultimately show ?thesis using p by simp
qed

subsection \<open>Flash messages\<close>

lemma well_formed_items_update:
  "well_formed_items d \<Longrightarrow> well_formed v \<Longrightarrow> well_formed_items (AList.update k v d)"
  by (induction d) auto

lemma well_formed_dict_update:
  "well_formed (PyDict d) \<Longrightarrow> well_formed v \<Longrightarrow> well_formed (PyDict (AList.update k v d))"
  by (simp add: well_formed_items_update distinct_update)

text \<open>
  Claim C9.  On a fresh session, flashing \<open>"hello"\<close> twice into the queue \<open>""\<close> without
  duplicates leaves the list \<open>["hello"]\<close> under the queue's key, in the payload and in
  the store; \<open>pop_flash("")\<close> returns that list and removes the key; \<open>peek_flash("")\<close>
  then returns the empty list.
\<close>

theorem flash_scenario:
  "(let fresh = \<lparr>session_id = sid, managed_dict = [], default_timeout = dt, timeout = t,
                 v_new = True\<rparr>;
        (r1, s1, redis1) = flash ''hello'' '''' False fresh redis;
        (r2, s2, redis2) = flash ''hello'' '''' False s1 redis1;
        (r3, s3, redis3) = pop_flash '''' s2 redis2;
        (r4, s4, redis4) = peek_flash '''' s3 redis3
    in r1 = Inr () \<and> r2 = Inr ()
       \<and> managed_dict s1 = [(''_f_'', PyList [PyStr ''hello''])]
       \<and> managed_dict s2 = [(''_f_'', PyList [PyStr ''hello''])]
       \<and> map_option blob (redis2 sid) = Some (pack (PyDict [(''_f_'', PyList [PyStr ''hello''])]))
       \<and> r3 = Inr (PyList [PyStr ''hello''])
       \<and> managed_dict s3 = []
       \<and> map_option blob (redis3 sid) = Some empty_session
       \<and> r4 = Inr (PyList [])
       \<and> managed_dict s4 = [])"
proof -
  define fresh where
    "fresh = \<lparr>session_id = sid, managed_dict = [], default_timeout = dt, timeout = t, v_new = True\<rparr>"
  define queued where "queued = fresh\<lparr>managed_dict := [(''_f_'', PyList [PyStr ''hello''])]\<rparr>"
  define life where "life = (if t = 0 then None else Some t)"
  define stored where
    "stored = redis(sid \<mapsto> \<lparr>blob = pack (PyDict [(''_f_'', PyList [PyStr ''hello''])]), ttl = life\<rparr>)"
  define emptied where "emptied = redis(sid \<mapsto> \<lparr>blob = empty_session, ttl = life\<rparr>)"
  have p0: "packable (PyDict [(''_f_'', PyList [])])"
    and p1: "packable (PyDict [(''_f_'', PyList [PyStr ''hello''])])"
    and p2: "packable (PyDict [])"
    by (simp_all add: packable_def)
  have first: "flash ''hello'' '''' False fresh redis = (Inr (), queued, stored)"
    using p0 p1
    by (simp add: flash_def setdefault_def changed_def persist_def to_redis_def serialize_def
        py_in_def redis_setex_def redis_set_def fresh_def queued_def stored_def life_def)
  have second: "flash ''hello'' '''' False queued stored = (Inr (), queued, stored)"
    using p1
    by (simp add: flash_def setdefault_def persist_def to_redis_def serialize_def py_in_def
        redis_setex_def redis_set_def fresh_def queued_def stored_def life_def)
  have third: "pop_flash '''' queued stored = (Inr (PyList [PyStr ''hello'']), fresh, emptied)"
    using p2
    by (simp add: pop_flash_def pop_def persist_def to_redis_def serialize_def
        redis_setex_def redis_set_def fresh_def queued_def stored_def emptied_def life_def
        empty_session_def)
  have fourth: "peek_flash '''' fresh emptied
      = (Inr (PyList []), fresh, if t \<noteq> 0 then redis_expire sid t emptied else emptied)"
    by (simp add: peek_flash_def get_def refresh_def fresh_def)
  have payloads: "managed_dict queued = [(''_f_'', PyList [PyStr ''hello''])]" "managed_dict fresh = []"
    by (simp_all add: queued_def fresh_def)
  have blobs: "map_option blob (stored sid) = Some (pack (PyDict [(''_f_'', PyList [PyStr ''hello''])]))"
    "map_option blob (emptied sid) = Some empty_session"
    by (simp_all add: stored_def emptied_def)
  show ?thesis
    unfolding fresh_def [symmetric] Let_def
    using payloads blobs
    by (simp add: first second third fourth)
qed

theorem flash_scenario_witness:
  "(let fresh = \<lparr>session_id = ''ABC'', managed_dict = [], default_timeout = 1200, timeout = 1200,
                 v_new = True\<rparr>;
        (r1, s1, redis1) = flash ''hello'' '''' False fresh Map.empty;
        (r2, s2, redis2) = flash ''hello'' '''' False s1 redis1;
        (r3, s3, redis3) = pop_flash '''' s2 redis2;
        (r4, s4, redis4) = peek_flash '''' s3 redis3
    in r1 = Inr () \<and> r2 = Inr ()
       \<and> managed_dict s1 = [(''_f_'', PyList [PyStr ''hello''])]
       \<and> managed_dict s2 = [(''_f_'', PyList [PyStr ''hello''])]
       \<and> map_option blob (redis2 ''ABC'') = Some (pack (PyDict [(''_f_'', PyList [PyStr ''hello''])]))
       \<and> r3 = Inr (PyList [PyStr ''hello''])
       \<and> managed_dict s3 = []
       \<and> map_option blob (redis3 ''ABC'') = Some empty_session
       \<and> r4 = Inr (PyList [])
       \<and> managed_dict s4 = [])"
  by (rule flash_scenario)

subsection \<open>Indefinite mode\<close>

lemma map_of_delete_same: "map_of (AList.delete k d) k = None"
  by (simp add: delete_conv')

text \<open>
  Claim C7.  When \<open>dont_expire\<close> returns, the session's timeout is 0, its payload holds
  \<open>True\<close> under \<open>"on"\<close>, and that payload is in the store without expiration.  Any load
  in which the stored blob decodes to a dict with the key \<open>"on"\<close> gives a session with
  timeout 0, whatever default is configured; with an idle unpacker the stored blob decodes
  to the persisted payload.  A following \<open>set_timeout\<close> restores the default timeout,
  removes the key and persists.
\<close>

theorem dont_expire_then_set_timeout:
  assumes "dont_expire self redis = (Inr r, self1, redis1)"
  shows "timeout self1 = 0
    \<and> managed_dict self1 = AList.update ''on'' (PyBool True) (managed_dict self)
    \<and> map_of (managed_dict self1) ''on'' = Some (PyBool True)
    \<and> redis1 = redis_set (session_id self) (pack (PyDict (managed_dict self1))) redis
    \<and> redis1 (session_id self) = Some \<lparr>blob = pack (PyDict (managed_dict self1)), ttl = None\<rparr>
    \<and> (\<forall>t u d u'. deserialize (redis_get (session_id self) redis1) u = (Inr (PyDict d), u')
            \<and> map_of d ''on'' \<noteq> None \<longrightarrow>
          (\<exists>s. RedisSession redis1 (session_id self) t u = (Inr s, u')
               \<and> timeout s = 0 \<and> default_timeout s = t \<and> managed_dict s = d))
    \<and> (well_formed (PyDict (managed_dict self)) \<longrightarrow>
          (\<forall>t. RedisSession redis1 (session_id self) t []
                = (Inr \<lparr>session_id = session_id self, managed_dict = managed_dict self1,
                        default_timeout = t, timeout = 0, v_new = False\<rparr>, [])))
    \<and> (\<forall>r2 self2 redis2. set_timeout self1 redis1 = (Inr r2, self2, redis2) \<longrightarrow>
          timeout self2 = default_timeout self
          \<and> managed_dict self2 = AList.delete ''on'' (managed_dict self1)
          \<and> map_of (managed_dict self2) ''on'' = None
          \<and> redis2 (session_id self)
              = Some \<lparr>blob = pack (PyDict (managed_dict self2)),
                      ttl = (if 0 < default_timeout self then Some (default_timeout self)
                             else None)\<rparr>)"
proof -
  let ?d1 = "AList.update ''on'' (PyBool True) (managed_dict self)"
  from assms have run: "persist (\<lambda>self.
       let self1 = self\<lparr>timeout := 0\<rparr>
       in (Inr (),
           self1\<lparr>managed_dict := AList.update ''on'' (PyBool True) (managed_dict self1)\<rparr>))
       self redis = (Inr r, self1, redis1)"
    by (simp add: dont_expire_def)
  note pr = persist_returns [OF run]
  from pr have s1: "self1 = self\<lparr>timeout := 0, managed_dict := ?d1\<rparr>"
    by (simp add: Let_def)
  then have t1: "timeout self1 = 0" and d1: "managed_dict self1 = ?d1"
    and sid1: "session_id self1 = session_id self" and dt1: "default_timeout self1 = default_timeout self"
    by simp_all
  have on1: "map_of (managed_dict self1) ''on'' = Some (PyBool True)"
    by (simp add: d1 update_conv')
  from pr obtain data where data: "to_redis self1 = Inr data"
    "redis1 = redis_set (session_id self) data redis"
    using t1 sid1 by auto
  from data(1) have ser: "serialize (PyDict (managed_dict self1)) = Inr data"
    by (simp add: to_redis_def)
  then have packed: "data = pack (PyDict (managed_dict self1))"
    by (auto simp: serialize_def split: if_splits)
  have st1: "redis1 = redis_set (session_id self) (pack (PyDict (managed_dict self1))) redis"
    using data(2) packed by simp
  then have entry: "redis1 (session_id self)
      = Some \<lparr>blob = pack (PyDict (managed_dict self1)), ttl = None\<rparr>"
    by (simp add: redis_set_def)
  have reload: "\<forall>t u d u'. deserialize (redis_get (session_id self) redis1) u = (Inr (PyDict d), u')
            \<and> map_of d ''on'' \<noteq> None \<longrightarrow>
          (\<exists>s. RedisSession redis1 (session_id self) t u = (Inr s, u')
               \<and> timeout s = 0 \<and> default_timeout s = t \<and> managed_dict s = d)"
    using entry by (auto simp: RedisSession_def from_redis_def)
  have idle: "well_formed (PyDict (managed_dict self)) \<longrightarrow>
          (\<forall>t. RedisSession redis1 (session_id self) t []
                = (Inr \<lparr>session_id = session_id self, managed_dict = managed_dict self1,
                        default_timeout = t, timeout = 0, v_new = False\<rparr>, []))"
  proof (intro impI allI)
    fix t
    assume "well_formed (PyDict (managed_dict self))"
    then have "well_formed (PyDict (managed_dict self1))"
      unfolding d1 by (rule well_formed_dict_update) simp
    with ser have "deserialize (Some data) [] = (Inr (PyDict (managed_dict self1)), [])"
      by (rule deserialize_serialize_idle)
    with entry packed on1
    show "RedisSession redis1 (session_id self) t []
                = (Inr \<lparr>session_id = session_id self, managed_dict = managed_dict self1,
                        default_timeout = t, timeout = 0, v_new = False\<rparr>, [])"
      by (simp add: RedisSession_decoded [where e = "\<lparr>blob = data, ttl = None\<rparr>"])
  qed
  have restore: "\<forall>r2 self2 redis2. set_timeout self1 redis1 = (Inr r2, self2, redis2) \<longrightarrow>
          timeout self2 = default_timeout self
          \<and> managed_dict self2 = AList.delete ''on'' (managed_dict self1)
          \<and> map_of (managed_dict self2) ''on'' = None
          \<and> redis2 (session_id self)
              = Some \<lparr>blob = pack (PyDict (managed_dict self2)),
                      ttl = (if 0 < default_timeout self then Some (default_timeout self)
                             else None)\<rparr>"
  proof (intro allI impI)
    fix r2 self2 redis2
    assume "set_timeout self1 redis1 = (Inr r2, self2, redis2)"
    then have run2: "persist (\<lambda>self.
       let self1 = self\<lparr>timeout := default_timeout self\<rparr>
       in (Inr (),
           if map_of (managed_dict self1) ''on'' \<noteq> None
           then self1\<lparr>managed_dict := AList.delete ''on'' (managed_dict self1)\<rparr>
           else self1)) self1 redis1 = (Inr r2, self2, redis2)"
      by (simp add: set_timeout_def)
    note pr2 = persist_returns [OF run2]
    from pr2 on1 have s2: "self2 = self1\<lparr>timeout := default_timeout self1,
        managed_dict := AList.delete ''on'' (managed_dict self1)\<rparr>"
      by (simp add: Let_def)
    then have t2: "timeout self2 = default_timeout self"
      and d2: "managed_dict self2 = AList.delete ''on'' (managed_dict self1)"
      and sid2: "session_id self2 = session_id self"
      using dt1 sid1 by simp_all
    from pr2 obtain data2 where data2: "to_redis self2 = Inr data2"
      "redis2 = (if timeout self2 \<noteq> 0
                 then redis_setex (session_id self2) (timeout self2) data2 redis1
                 else redis_set (session_id self2) data2 redis1)"
      by blast
    from data2(1) have "data2 = pack (PyDict (managed_dict self2))"
      by (auto simp: to_redis_def serialize_def split: if_splits)
    with data2(2) t2 sid2 have "redis2 (session_id self)
              = Some \<lparr>blob = pack (PyDict (managed_dict self2)),
                      ttl = (if 0 < default_timeout self then Some (default_timeout self)
                             else None)\<rparr>"
      by (simp add: redis_setex_def redis_set_def)
    with t2 d2 show "timeout self2 = default_timeout self
          \<and> managed_dict self2 = AList.delete ''on'' (managed_dict self1)
          \<and> map_of (managed_dict self2) ''on'' = None
          \<and> redis2 (session_id self)
              = Some \<lparr>blob = pack (PyDict (managed_dict self2)),
                      ttl = (if 0 < default_timeout self then Some (default_timeout self)
                             else None)\<rparr>"
      by (simp add: map_of_delete_same)
  qed
  from t1 d1 on1 st1 entry reload idle restore show ?thesis by blast
qed

theorem dont_expire_then_set_timeout_witness:
  "(\<exists>self1 redis1.
      dont_expire \<lparr>session_id = ''ABC'', managed_dict = [(''a'', PyInt 1)],
                   default_timeout = 1200, timeout = 1200, v_new = False\<rparr> Map.empty
        = (Inr (), self1, redis1)
      \<and> timeout self1 = 0
      \<and> managed_dict self1 = [(''a'', PyInt 1), (''on'', PyBool True)]
      \<and> redis1 ''ABC''
          = Some \<lparr>blob = pack (PyDict [(''a'', PyInt 1), (''on'', PyBool True)]), ttl = None\<rparr>
      \<and> RedisSession redis1 ''ABC'' 3600 []
          = (Inr \<lparr>session_id = ''ABC'', managed_dict = [(''a'', PyInt 1), (''on'', PyBool True)],
                  default_timeout = 3600, timeout = 0, v_new = False\<rparr>, [])
      \<and> (\<exists>self2 redis2.
            set_timeout self1 redis1 = (Inr (), self2, redis2)
            \<and> timeout self2 = 1200
            \<and> managed_dict self2 = [(''a'', PyInt 1)]
            \<and> redis2 ''ABC''
                = Some \<lparr>blob = pack (PyDict [(''a'', PyInt 1)]), ttl = Some 1200\<rparr>))"
proof -
  let ?a = "\<lparr>session_id = ''ABC'', managed_dict = [(''a'', PyInt 1)],
             default_timeout = 1200, timeout = 1200, v_new = False\<rparr>"
  let ?b = "\<lparr>session_id = ''ABC'', managed_dict = [(''a'', PyInt 1), (''on'', PyBool True)],
             default_timeout = 1200, timeout = 0, v_new = False\<rparr>"
  let ?c = "\<lparr>session_id = ''ABC'', managed_dict = [(''a'', PyInt 1)],
             default_timeout = 1200, timeout = 1200, v_new = False\<rparr>"
  let ?kept = "[''ABC'' \<mapsto> \<lparr>blob = pack (PyDict [(''a'', PyInt 1), (''on'', PyBool True)]),
                            ttl = None\<rparr>]"
  have run: "dont_expire ?a Map.empty = (Inr (), ?b, ?kept)"
    by (simp add: dont_expire_def persist_def to_redis_def serialize_def packable_def
        redis_set_def Let_def)
  note facts = dont_expire_then_set_timeout [OF run]
  have wf: "well_formed (PyDict (managed_dict ?a))" by simp
  from facts have "well_formed (PyDict (managed_dict ?a)) \<longrightarrow>
      (\<forall>t. RedisSession ?kept (session_id ?a) t []
            = (Inr \<lparr>session_id = session_id ?a, managed_dict = managed_dict ?b,
                    default_timeout = t, timeout = 0, v_new = False\<rparr>, []))"
    by blast
  with wf have "\<forall>t. RedisSession ?kept (session_id ?a) t []
            = (Inr \<lparr>session_id = session_id ?a, managed_dict = managed_dict ?b,
                    default_timeout = t, timeout = 0, v_new = False\<rparr>, [])"
    by blast
  then have reload: "RedisSession ?kept ''ABC'' 3600 []
      = (Inr \<lparr>session_id = ''ABC'', managed_dict = [(''a'', PyInt 1), (''on'', PyBool True)],
              default_timeout = 3600, timeout = 0, v_new = False\<rparr>, [])"
    by simp
  have "\<exists>redis2. set_timeout ?b ?kept = (Inr (), ?c, redis2)"
    by (simp add: set_timeout_def persist_def to_redis_def serialize_def packable_def Let_def)
  then obtain redis2 where run2: "set_timeout ?b ?kept = (Inr (), ?c, redis2)"
    by blast
  from facts have "\<forall>r2 self2 redis2. set_timeout ?b ?kept = (Inr r2, self2, redis2) \<longrightarrow>
      redis2 (session_id ?a)
        = Some \<lparr>blob = pack (PyDict (managed_dict self2)),
                ttl = (if 0 < default_timeout ?a then Some (default_timeout ?a) else None)\<rparr>"
    by blast
  with run2 have "redis2 (session_id ?a)
        = Some \<lparr>blob = pack (PyDict (managed_dict ?c)),
                ttl = (if 0 < default_timeout ?a then Some (default_timeout ?a) else None)\<rparr>"
    by blast
  then have entry2: "redis2 ''ABC'' = Some \<lparr>blob = pack (PyDict [(''a'', PyInt 1)]), ttl = Some 1200\<rparr>"
    by simp
  have entry1: "?kept ''ABC''
      = Some \<lparr>blob = pack (PyDict [(''a'', PyInt 1), (''on'', PyBool True)]), ttl = None\<rparr>"
    by simp
  from run reload run2 entry2 entry1 show ?thesis
    by (intro exI [of _ ?b] exI [of _ ?kept] conjI exI [of _ ?c] exI [of _ redis2]) simp_all
qed

subsection \<open>The factory\<close>

lemma factory_existing:
  assumes "cookies req (cookie_name cfg) = Some c"
    and "unsign_session_id c (secret cfg) = Inr sid"
    and "sid \<noteq> []"
    and "redis sid = Some e"
  shows "factory cfg req redis unpacker rand
    = (case RedisSession redis sid (factory_timeout cfg) unpacker of
         (r, unpacker1) \<Rightarrow> Some (r, req, redis, unpacker1, rand))"
  using assms by (simp add: factory_def redis_exists_def)

lemma factory_new:
  assumes "\<not> (\<exists>c sid. cookies req (cookie_name cfg) = Some c
              \<and> unsign_session_id c (secret cfg) = Inr sid \<and> sid \<noteq> [] \<and> redis sid \<noteq> None)"
  shows "factory cfg req redis unpacker rand
    = (case new_session_id redis (factory_timeout cfg) rand of
         None \<Rightarrow> None
       | Some (Inl e, redis1, rand1) \<Rightarrow> Some (Inl e, req, redis1, unpacker, rand1)
       | Some (Inr new_id, redis1, rand1) \<Rightarrow>
           (let req1 = add_cookie cfg new_id req
            in case RedisSession redis1 new_id (factory_timeout cfg) unpacker of
                 (Inl e, unpacker1) \<Rightarrow> Some (Inl e, req1, redis1, unpacker1, rand1)
               | (Inr session, unpacker1) \<Rightarrow>
                   Some (Inr (session\<lparr>v_new := True\<rparr>), req1, redis1, unpacker1, rand1)))"
proof -
  have "(case (case cookies req (cookie_name cfg) of
                 None \<Rightarrow> None
               | Some c \<Rightarrow>
                   (case unsign_session_id c (secret cfg) of
                      Inl e \<Rightarrow> None
                    | Inr i \<Rightarrow> Some i)) of
           None \<Rightarrow> None
         | Some i \<Rightarrow> if i \<noteq> [] \<and> redis_exists i redis then Some i else None) = None"
    using assms by (auto simp: redis_exists_def split: option.splits sum.splits)
  then show ?thesis by (simp add: factory_def Let_def)
qed

lemma factory_new_raises:
  assumes "\<not> (\<exists>c sid. cookies req (cookie_name cfg) = Some c
              \<and> unsign_session_id c (secret cfg) = Inr sid \<and> sid \<noteq> [] \<and> redis sid \<noteq> None)"
  shows "factory cfg req redis unpacker (r # rand)
    = Some (Inl TypeError, req, snd (redis_setnx (b32encode r) empty_session redis),
            unpacker, rand)"
  unfolding factory_new [OF assms] new_session_id_raises by simp

text \<open>
  Claim C2 gives the factory exactly two outcomes, for every request.  With a cookie that
  verifies and an id present in the store, the constructor decodes the stored blob without
  a guard: for a blob that is no complete object the decoder raises, and so does the
  factory.
\<close>

theorem factory_third_outcome_counterexample:
  "factory \<lparr>secret = ''s3cr3t'', factory_timeout = 1200, cookie_name = ''session'',
            cookie_on_exception = True\<rparr>
     \<lparr>cookies = [''session'' \<mapsto> sign_session_id ''ABCDEF'' ''s3cr3t''], exception = None,
      response_callbacks = []\<rparr>
     [''ABCDEF'' \<mapsto> \<lparr>blob = [], ttl = None\<rparr>] [] []
   = Some (Inl OutOfData,
           \<lparr>cookies = [''session'' \<mapsto> sign_session_id ''ABCDEF'' ''s3cr3t''], exception = None,
            response_callbacks = []\<rparr>,
           [''ABCDEF'' \<mapsto> \<lparr>blob = [], ttl = None\<rparr>], [], [])"
proof -
  let ?cfg = "\<lparr>secret = ''s3cr3t'', factory_timeout = 1200, cookie_name = ''session'',
               cookie_on_exception = True\<rparr>"
  let ?req = "\<lparr>cookies = [''session'' \<mapsto> sign_session_id ''ABCDEF'' ''s3cr3t''],
               exception = None, response_callbacks = []\<rparr>"
  let ?redis = "[''ABCDEF'' \<mapsto> \<lparr>blob = [], ttl = None\<rparr>]"
  have "RedisSession ?redis ''ABCDEF'' 1200 [] = (Inl OutOfData, [])"
    by (simp add: RedisSession_def from_redis_def redis_get_def deserialize_def feed_def
        unpack_def)
  then show ?thesis
    using factory_existing [of ?req ?cfg "sign_session_id ''ABCDEF'' ''s3cr3t''" "''ABCDEF''"
        ?redis "\<lparr>blob = [], ttl = None\<rparr>" "[]" "[]"]
    by (simp add: unsign_sign)
qed

text \<open>
  Claim C2, amended.  For every request whose cookie verifies under the configured secret
  with an id that is not empty and is a key of the store: if the stored blob decodes to a
  dict, the factory returns a session bound to that id, not new, with that dict as payload,
  and request and store are as they were, so no cookie is scheduled; if decoding the
  stored blob raises, the factory raises the same exception, request and store again as
  they were.  Nothing is said about the other requests.
\<close>

theorem factory_outcomes:
  "(cookies req (cookie_name cfg) = Some c
      \<and> unsign_session_id c (secret cfg) = Inr sid \<and> sid \<noteq> []
      \<and> redis sid = Some stored
      \<and> deserialize (Some (blob stored)) unpacker = (Inr (PyDict d), unpacker') \<longrightarrow>
      factory cfg req redis unpacker rand
        = Some (Inr \<lparr>session_id = sid, managed_dict = d,
                     default_timeout = factory_timeout cfg,
                     timeout = (if map_of d ''on'' \<noteq> None then 0 else factory_timeout cfg),
                     v_new = False\<rparr>,
                req, redis, unpacker', rand))
   \<and> (cookies req (cookie_name cfg) = Some c
      \<and> unsign_session_id c (secret cfg) = Inr sid \<and> sid \<noteq> []
      \<and> redis sid = Some stored
      \<and> deserialize (Some (blob stored)) unpacker = (Inl e, unpacker') \<longrightarrow>
      factory cfg req redis unpacker rand = Some (Inl e, req, redis, unpacker', rand))"
proof (rule conjI; rule impI)
  assume a: "cookies req (cookie_name cfg) = Some c
      \<and> unsign_session_id c (secret cfg) = Inr sid \<and> sid \<noteq> []
      \<and> redis sid = Some stored
      \<and> deserialize (Some (blob stored)) unpacker = (Inr (PyDict d), unpacker')"
  then have "RedisSession redis sid (factory_timeout cfg) unpacker
      = (Inr \<lparr>session_id = sid, managed_dict = d, default_timeout = factory_timeout cfg,
              timeout = (if map_of d ''on'' \<noteq> None then 0 else factory_timeout cfg),
              v_new = False\<rparr>, unpacker')"
    by (simp add: RedisSession_decoded)
  moreover from a have a1: "cookies req (cookie_name cfg) = Some c"
    and a2: "unsign_session_id c (secret cfg) = Inr sid"
    and a3: "sid \<noteq> []" and a4: "redis sid = Some stored"
    by simp_all
  have "factory cfg req redis unpacker rand
    = (case RedisSession redis sid (factory_timeout cfg) unpacker of
         (r, unpacker1) \<Rightarrow> Some (r, req, redis, unpacker1, rand))"
    by (rule factory_existing [where redis = redis and sid = sid, OF a1 a2 a3 a4])
  ultimately show "factory cfg req redis unpacker rand
        = Some (Inr \<lparr>session_id = sid, managed_dict = d,
                     default_timeout = factory_timeout cfg,
                     timeout = (if map_of d ''on'' \<noteq> None then 0 else factory_timeout cfg),
                     v_new = False\<rparr>,
                req, redis, unpacker', rand)"
    by simp
next
  assume b: "cookies req (cookie_name cfg) = Some c
      \<and> unsign_session_id c (secret cfg) = Inr sid \<and> sid \<noteq> []
      \<and> redis sid = Some stored
      \<and> deserialize (Some (blob stored)) unpacker = (Inl e, unpacker')"
  then have b1: "cookies req (cookie_name cfg) = Some c"
    and b2: "unsign_session_id c (secret cfg) = Inr sid"
    and b3: "sid \<noteq> []" and b4: "redis sid = Some stored"
    and b5: "deserialize (Some (blob stored)) unpacker = (Inl e, unpacker')"
    by simp_all
  from b4 b5 have "RedisSession redis sid (factory_timeout cfg) unpacker = (Inl e, unpacker')"
    by (simp add: RedisSession_def from_redis_def redis_get_def)
  moreover have "factory cfg req redis unpacker rand
    = (case RedisSession redis sid (factory_timeout cfg) unpacker of
         (r, unpacker1) \<Rightarrow> Some (r, req, redis, unpacker1, rand))"
    by (rule factory_existing [where redis = redis and sid = sid, OF b1 b2 b3 b4])
  ultimately show "factory cfg req redis unpacker rand = Some (Inl e, req, redis, unpacker', rand)"
    by simp
qed

theorem factory_outcomes_witness:
  "factory \<lparr>secret = ''s3cr3t'', factory_timeout = 1200, cookie_name = ''session'',
            cookie_on_exception = True\<rparr>
     \<lparr>cookies = [''session'' \<mapsto> sign_session_id ''ABCDEF'' ''s3cr3t''], exception = None,
      response_callbacks = []\<rparr>
     [''ABCDEF'' \<mapsto> \<lparr>blob = empty_session, ttl = Some 1200\<rparr>] [] []
   = Some (Inr \<lparr>session_id = ''ABCDEF'', managed_dict = [], default_timeout = 1200,
                timeout = 1200, v_new = False\<rparr>,
           \<lparr>cookies = [''session'' \<mapsto> sign_session_id ''ABCDEF'' ''s3cr3t''], exception = None,
            response_callbacks = []\<rparr>,
           [''ABCDEF'' \<mapsto> \<lparr>blob = empty_session, ttl = Some 1200\<rparr>], [], [])
   \<and> factory \<lparr>secret = ''s3cr3t'', factory_timeout = 1200, cookie_name = ''session'',
            cookie_on_exception = True\<rparr>
     \<lparr>cookies = [''session'' \<mapsto> sign_session_id ''ABCDEF'' ''s3cr3t''], exception = None,
      response_callbacks = []\<rparr>
     [''ABCDEF'' \<mapsto> \<lparr>blob = [CHR 0x91], ttl = Some 1200\<rparr>] [] []
   = Some (Inl OutOfData,
           \<lparr>cookies = [''session'' \<mapsto> sign_session_id ''ABCDEF'' ''s3cr3t''], exception = None,
            response_callbacks = []\<rparr>,
           [''ABCDEF'' \<mapsto> \<lparr>blob = [CHR 0x91], ttl = Some 1200\<rparr>], [CHR 0x91], [])"
proof -
  let ?cfg = "\<lparr>secret = ''s3cr3t'', factory_timeout = 1200, cookie_name = ''session'',
               cookie_on_exception = True\<rparr>"
  let ?req = "\<lparr>cookies = [''session'' \<mapsto> sign_session_id ''ABCDEF'' ''s3cr3t''],
               exception = None, response_callbacks = []\<rparr>"
  let ?redis = "[''ABCDEF'' \<mapsto> \<lparr>blob = empty_session, ttl = Some 1200\<rparr>]"
  let ?torn = "[''ABCDEF'' \<mapsto> \<lparr>blob = [CHR 0x91], ttl = Some 1200\<rparr>]"
  have "cookies ?req (cookie_name ?cfg) = Some (sign_session_id ''ABCDEF'' ''s3cr3t'')
      \<and> unsign_session_id (sign_session_id ''ABCDEF'' ''s3cr3t'') (secret ?cfg) = Inr ''ABCDEF''
      \<and> ''ABCDEF'' \<noteq> []
      \<and> ?redis ''ABCDEF'' = Some \<lparr>blob = empty_session, ttl = Some 1200\<rparr>
      \<and> deserialize (Some (blob \<lparr>blob = empty_session, ttl = Some 1200\<rparr>)) []
          = (Inr (PyDict []), [])"
    by (simp add: unsign_sign deserialize_empty_session)
  with factory_outcomes [of ?req ?cfg "sign_session_id ''ABCDEF'' ''s3cr3t''" "''ABCDEF''" ?redis
      "\<lparr>blob = empty_session, ttl = Some 1200\<rparr>" "[]" "[]" "[]" "[]"]
  have "factory ?cfg ?req ?redis [] []
        = Some (Inr \<lparr>session_id = ''ABCDEF'', managed_dict = [],
                     default_timeout = factory_timeout ?cfg,
                     timeout = (if map_of [] ''on'' \<noteq> (None :: pyval option) then 0
                                else factory_timeout ?cfg),
                     v_new = False\<rparr>,
                ?req, ?redis, [], [])"
    by blast
  then have existing: "factory ?cfg ?req ?redis [] []
        = Some (Inr \<lparr>session_id = ''ABCDEF'', managed_dict = [], default_timeout = 1200,
                     timeout = 1200, v_new = False\<rparr>, ?req, ?redis, [], [])"
    by simp
  have torn: "deserialize (Some [CHR 0x91]) [] = (Inl OutOfData, [CHR 0x91])"
    by (simp add: deserialize_def feed_def unpack_def)
  have "cookies ?req (cookie_name ?cfg) = Some (sign_session_id ''ABCDEF'' ''s3cr3t'')
      \<and> unsign_session_id (sign_session_id ''ABCDEF'' ''s3cr3t'') (secret ?cfg) = Inr ''ABCDEF''
      \<and> ''ABCDEF'' \<noteq> []
      \<and> ?torn ''ABCDEF'' = Some \<lparr>blob = [CHR 0x91], ttl = Some 1200\<rparr>
      \<and> deserialize (Some (blob \<lparr>blob = [CHR 0x91], ttl = Some 1200\<rparr>)) []
          = (Inl OutOfData, [CHR 0x91])"
    by (simp add: unsign_sign torn)
  with factory_outcomes [where req = ?req and cfg = ?cfg
      and c = "sign_session_id ''ABCDEF'' ''s3cr3t''" and sid = "''ABCDEF''" and redis = ?torn
      and stored = "\<lparr>blob = [CHR 0x91], ttl = Some 1200\<rparr>" and unpacker = "[]"
      and unpacker' = "[CHR 0x91]" and e = OutOfData and rand = "[]"]
  have raised: "factory ?cfg ?req ?torn [] [] = Some (Inl OutOfData, ?req, ?torn, [CHR 0x91], [])"
    by blast
  from existing raised show ?thesis by simp
qed

end
